theory Spec2Isabelle
  imports
    Complex_Main
    "HOL-Library.Word"
    "HOL-Library.AList"
    "HOL-Library.Char_ord"
    "HOL-Library.List_Lexorder"
    "HOL-Library.Product_Lexorder"
    "HOL-Library.Multiset"
begin

section \<open>Configuration constants\<close>

text \<open>
  The module-level constants of \<^verbatim>\<open>testfile.py\<close>. Python floats are modelled as
  real numbers (rounding is not modelled); a float that may be NaN is a \<open>real option\<close>
  with \<open>None\<close> for NaN. Strings are lists of 8-bit characters, each read as the code
  point of that number (0 to 255).
\<close>

definition REGION_LABEL_EU :: string where
  "REGION_LABEL_EU = ''European Union''"

text \<open>The dict \<^verbatim>\<open>REPORTERS\<close> in insertion order: label, then download code.\<close>

definition REPORTERS :: "(string \<times> string) list" where
  "REPORTERS =
     [(''European Union'', ''EUN''),
      (''China'', ''CHN''),
      (''Chile'', ''CHL''),
      (''Canada'', ''CAN''),
      (''United States'', ''USA''),
      (''Russian Federation'', ''RUS''),
      (''Argentina'', ''ARG'')]"

definition BASE_PARTNERS :: "string list" where
  "BASE_PARTNERS =
     [''United States'', ''China'', ''Russian Federation'', ''Canada'', ''Argentina'', ''Chile'']"

definition PARTNERS :: "string list" where
  "PARTNERS = BASE_PARTNERS @ [''World'']"

definition EU_COUNTRIES :: "string list" where
  "EU_COUNTRIES =
     [''Austria'', ''Belgium'', ''Bulgaria'', ''Croatia'', ''Cyprus'', ''Czech Republic'',
      ''Denmark'', ''Estonia'', ''Finland'', ''France'', ''Germany'', ''Greece'', ''Hungary'',
      ''Ireland'', ''Italy'', ''Latvia'', ''Lithuania'', ''Luxembourg'', ''Malta'',
      ''Netherlands'', ''Poland'', ''Portugal'', ''Romania'', ''Slovak Republic'',
      ''Slovenia'', ''Spain'', ''Sweden'']"

definition YEARS :: "int list" where
  "YEARS = [2020, 2021, 2022, 2023, 2024]"

definition FLOWS :: "string list" where
  "FLOWS = [''I'', ''E'']"

definition PRODUCTS :: "string list" where
  "PRODUCTS =
     [''430110'', ''430120'', ''430130'', ''430140'', ''430150'', ''430160'', ''430170'',
      ''430180'', ''430190'']"

definition USD_TO_EUR :: "int \<rightharpoonup> real" where
  "USD_TO_EUR =
     map_of [(2024, 924 / 1000), (2023, 924 / 1000), (2022, 951 / 1000),
             (2021, 846 / 1000), (2020, 877 / 1000)]"

definition EXCLUDE_FOR_ROW :: "string set" where
  "EXCLUDE_FOR_ROW = set (BASE_PARTNERS @ [REGION_LABEL_EU, ''World''] @ EU_COUNTRIES)"

section \<open>Strings\<close>

text \<open>
  \<^verbatim>\<open>str.strip()\<close> removes leading and trailing whitespace and \<^verbatim>\<open>str.lower()\<close>
  lowers the case of letters. Among the code points 0 to 255, Python's whitespace is
  space, tab, line feed, vertical tab, form feed, carriage return, the four separators
  0x1C to 0x1F, next line (0x85) and no-break space (0xA0); the letters with a lower
  case are A to Z and 0xC0 to 0xDE without the multiplication sign 0xD7, each 32 below
  its lower case.
\<close>

definition py_isspace :: "char \<Rightarrow> bool" where
  "py_isspace c \<longleftrightarrow>
     c \<in> set [CHR '' '', CHR 0x09, CHR 0x0A, CHR 0x0B, CHR 0x0C, CHR 0x0D,
              CHR 0x1C, CHR 0x1D, CHR 0x1E, CHR 0x1F, CHR 0x85, CHR 0xA0]"

definition strip :: "string \<Rightarrow> string" where
  "strip s = rev (dropWhile py_isspace (rev (dropWhile py_isspace s)))"

definition lower_char :: "char \<Rightarrow> char" where
  "lower_char c =
     (if CHR ''A'' \<le> c \<and> c \<le> CHR ''Z'' \<or>
         CHR 0xC0 \<le> c \<and> c \<le> CHR 0xDE \<and> c \<noteq> CHR 0xD7
      then char_of (of_char c + (32 :: nat)) else c)"

definition lower :: "string \<Rightarrow> string" where
  "lower s = map lower_char s"

section \<open>Cells, series and data frames\<close>

text \<open>
  A cell of a parsed sheet is a string, a 64-bit signed integer (\<^verbatim>\<open>int64\<close>), a float, or
  empty (pandas reads an empty cell as NaN). A series is a list of cells and a data frame
  is its list of column names with its records (the rows), each row giving the cell
  under every column name. A column of \<^verbatim>\<open>dtype int64\<close> has integer cells only, one of
  \<^verbatim>\<open>dtype float64\<close> has float and empty cells only, and any other column is of
  \<^verbatim>\<open>dtype object\<close>.
\<close>

datatype cell = Str string | Int64 "64 word" | Num real | NaN

type_synonym series = "cell list"

type_synonym row = "string \<Rightarrow> cell"

record dataframe =
  columns :: "string list"
  records :: "row list"

text \<open>
  Three functions of the libraries are not part of this program and are parameters of
  the model: how pandas parses a string cell as a number, an integer or a float
  (\<open>None\<close> when it cannot, which \<^verbatim>\<open>errors="coerce"\<close> turns into NaN), and how Python
  prints a float and an integer as a string.
\<close>

datatype number = IntN "64 word" | FloatN real

record pandas =
  parse_numeric :: "string \<Rightarrow> number option"
  float_str :: "real \<Rightarrow> string"
  int_str :: "64 word \<Rightarrow> string"

text \<open>\<^verbatim>\<open>s.astype(str)\<close>; an empty cell becomes the string \<^verbatim>\<open>nan\<close>.\<close>

definition py_str :: "pandas \<Rightarrow> cell \<Rightarrow> string" where
  "py_str L c =
     (case c of Str x \<Rightarrow> x | Int64 w \<Rightarrow> int_str L w | Num v \<Rightarrow> float_str L v | NaN \<Rightarrow> ''nan'')"

definition astype_str :: "pandas \<Rightarrow> series \<Rightarrow> series" where
  "astype_str L s = map (\<lambda>c. Str (py_str L c)) s"

text \<open>\<^verbatim>\<open>s.str.strip()\<close> and \<^verbatim>\<open>s.str.lower()\<close>; a cell that is not a string gives NaN.\<close>

definition str_strip :: "series \<Rightarrow> series" where
  "str_strip s = map (\<lambda>c. case c of Str x \<Rightarrow> Str (strip x) | _ \<Rightarrow> NaN) s"

definition str_lower :: "series \<Rightarrow> series" where
  "str_lower s = map (\<lambda>c. case c of Str x \<Rightarrow> Str (lower x) | _ \<Rightarrow> NaN) s"

text \<open>\<^verbatim>\<open>s == v\<close> for a string \<open>v\<close>, and \<^verbatim>\<open>s.isin(vals)\<close>: boolean masks.\<close>

definition eq_str :: "series \<Rightarrow> string \<Rightarrow> bool list" where
  "eq_str s v = map (\<lambda>c. c = Str v) s"

definition isin :: "series \<Rightarrow> string set \<Rightarrow> bool list" where
  "isin s vals = map (\<lambda>c. case c of Str x \<Rightarrow> x \<in> vals | _ \<Rightarrow> False) s"

text \<open>
  \<^verbatim>\<open>pd.to_numeric(s, errors="coerce")\<close>: every cell is parsed; the result is of
  \<^verbatim>\<open>dtype int64\<close> when every cell is then an integer, and of \<^verbatim>\<open>dtype float64\<close>, with its
  integers turned into floats, otherwise. \<^verbatim>\<open>s.fillna(v)\<close> replaces the empty cells, of
  which an \<^verbatim>\<open>int64\<close> series has none.
\<close>

definition to_numeric_cell :: "pandas \<Rightarrow> cell \<Rightarrow> cell" where
  "to_numeric_cell L c =
     (case c of
        Int64 w \<Rightarrow> Int64 w
      | Num v \<Rightarrow> Num v
      | NaN \<Rightarrow> NaN
      | Str x \<Rightarrow> (case parse_numeric L x of
                   Some (IntN w) \<Rightarrow> Int64 w
                 | Some (FloatN v) \<Rightarrow> Num v
                 | None \<Rightarrow> NaN))"

definition is_int :: "cell \<Rightarrow> bool" where
  "is_int c = (case c of Int64 w \<Rightarrow> True | _ \<Rightarrow> False)"

definition as_float :: "cell \<Rightarrow> cell" where
  "as_float c = (case c of Int64 w \<Rightarrow> Num (real_of_int (sint w)) | _ \<Rightarrow> c)"

definition to_numeric :: "pandas \<Rightarrow> series \<Rightarrow> series" where
  "to_numeric L s =
     (let t = map (to_numeric_cell L) s
      in if list_all is_int t then t else map as_float t)"

definition fillna :: "real \<Rightarrow> series \<Rightarrow> series" where
  "fillna v s = map (\<lambda>c. case c of NaN \<Rightarrow> Num v | _ \<Rightarrow> c) s"

text \<open>
  \<^verbatim>\<open>float(s.sum())\<close>. The sum of an \<^verbatim>\<open>int64\<close> series is taken in 64-bit integers
  and wraps around; the sum of a float series skips NaN. The program only sums columns
  that \<open>to_numeric\<close> has made numeric, so a string cell does not occur there.
\<close>

definition cell_value :: "cell \<Rightarrow> real" where
  "cell_value c = (case c of Num v \<Rightarrow> v | Int64 w \<Rightarrow> real_of_int (sint w) | _ \<Rightarrow> 0)"

definition int_of :: "cell \<Rightarrow> 64 word" where
  "int_of c = (case c of Int64 w \<Rightarrow> w | _ \<Rightarrow> 0)"

definition series_sum :: "series \<Rightarrow> real" where
  "series_sum s =
     (if list_all is_int s then real_of_int (sint (sum_list (map int_of s)))
      else sum_list (map cell_value s))"

text \<open>\<^verbatim>\<open>df[c]\<close>, \<^verbatim>\<open>df[c] = s\<close> (on a value) and \<^verbatim>\<open>df[mask]\<close>.\<close>

definition get_col :: "dataframe \<Rightarrow> string \<Rightarrow> series" where
  "get_col df c = map (\<lambda>r. r c) (records df)"

definition set_col :: "dataframe \<Rightarrow> string \<Rightarrow> series \<Rightarrow> dataframe" where
  "set_col df c s =
     df\<lparr>columns := (if c \<in> set (columns df) then columns df else columns df @ [c]),
        records := map (\<lambda>(r, v). r(c := v)) (zip (records df) s)\<rparr>"

definition select_rows :: "dataframe \<Rightarrow> bool list \<Rightarrow> dataframe" where
  "select_rows df keep = df\<lparr>records := map fst (filter snd (zip (records df) keep))\<rparr>"

text \<open>
  \<^verbatim>\<open>df.groupby("Partner")[["Quantity", "Trade Value 1000USD"]].sum()\<close>: one entry for
  each distinct partner cell (NaN keys are dropped), with the sums of the two columns
  over the rows of that partner. pandas sorts the entries by key; the program only looks
  entries up, so the order is left as the keys first appear.
\<close>

definition groupby_sum :: "dataframe \<Rightarrow> (cell \<times> real \<times> real) list" where
  "groupby_sum df =
     map (\<lambda>k. let grp = select_rows df (map (\<lambda>c. c = k) (get_col df ''Partner''))
              in (k, series_sum (get_col grp ''Quantity''),
                     series_sum (get_col grp ''Trade Value 1000USD'')))
         (filter (\<lambda>k. k \<noteq> NaN) (remdups (get_col df ''Partner'')))"

section \<open>The store of data frames\<close>

text \<open>
  Data frames are objects: a column assignment changes the frame in place, while
  \<^verbatim>\<open>df.copy()\<close> and \<^verbatim>\<open>df[mask]\<close> make a new one. The store is the list of the
  frames made so far and a reference is a position in it; a reference that the program
  holds is always a position of the store, which the properties below assume.
\<close>

type_synonym heap = "dataframe list"

definition alloc :: "heap \<Rightarrow> dataframe \<Rightarrow> heap \<times> nat" where
  "alloc h df = (h @ [df], length h)"

definition assign :: "heap \<Rightarrow> nat \<Rightarrow> string \<Rightarrow> series \<Rightarrow> heap" where
  "assign h d c s = h[d := set_col (h ! d) c s]"

section \<open>Errors\<close>

type_synonym key = "string \<times> string \<times> int \<times> string"

text \<open>
  \<open>ValueError missing found\<close> is the error of \<^verbatim>\<open>_prep_kg_rows\<close>, whose message
  prints the two lists; \<open>KeyError\<close> is a lookup of an absent accumulator key;
  \<open>FetchError\<close> stands for any failure of the download or of the parsing of a sheet.
\<close>

datatype error = ValueError "string list" "string list" | KeyError key | FetchError

section \<open>Aggregator\<close>

text \<open>
  \<^verbatim>\<open>_prep_kg_rows(df)\<close>. The four column lookups come after the check of the required
  columns, so they do not fail.
\<close>

definition prep_kg_rows :: "pandas \<Rightarrow> heap \<Rightarrow> nat \<Rightarrow> error + heap \<times> nat" where
  "prep_kg_rows L h df =
     (let required = [''Partner'', ''Quantity'', ''Quantity Unit'', ''Trade Value 1000USD''];
          missing = filter (\<lambda>c. c \<notin> set (columns (h ! df))) required
      in if missing \<noteq> [] then Inl (ValueError missing (columns (h ! df)))
         else
           let (h, d) = alloc h (h ! df);
               h = assign h d ''Partner'' (str_strip (astype_str L (get_col (h ! d) ''Partner'')));
               h = assign h d ''Quantity Unit''
                     (str_strip (astype_str L (get_col (h ! d) ''Quantity Unit'')));
               (h, d) = alloc h (select_rows (h ! d)
                          (eq_str (str_lower (get_col (h ! d) ''Quantity Unit'')) ''kg''));
               h = assign h d ''Quantity''
                     (fillna 0 (to_numeric L (get_col (h ! d) ''Quantity'')));
               h = assign h d ''Trade Value 1000USD''
                     (fillna 0 (to_numeric L (get_col (h ! d) ''Trade Value 1000USD'')))
           in Inr (h, d))"

text \<open>
  \<^verbatim>\<open>get_qty_and_value_sums_for_partners(df, partners)\<close>. The returned dict is an
  association list in insertion order; an assignment to a key already present keeps its
  position.
\<close>

definition get_qty_and_value_sums_for_partners ::
    "pandas \<Rightarrow> heap \<Rightarrow> nat \<Rightarrow> string list \<Rightarrow> error + heap \<times> (string \<times> real \<times> real) list" where
  "get_qty_and_value_sums_for_partners L h df partners =
     (case prep_kg_rows L h df of
        Inl e \<Rightarrow> Inl e
      | Inr (h, d) \<Rightarrow>
          let (h, t) = alloc h (select_rows (h ! d)
                         (isin (get_col (h ! d) ''Partner'') (set partners)));
              g = groupby_sum (h ! t);
              out = fold (\<lambda>p out. case map_of g (Str p) of
                                     Some (q, v) \<Rightarrow> AList.update p (q, v) out
                                   | None \<Rightarrow> AList.update p (0, 0) out)
                         partners []
          in Inr (h, out))"

text \<open>\<^verbatim>\<open>get_rest_of_world_sum(df, exclude_partners)\<close>.\<close>

definition get_rest_of_world_sum ::
    "pandas \<Rightarrow> heap \<Rightarrow> nat \<Rightarrow> string set \<Rightarrow> error + heap \<times> real \<times> real" where
  "get_rest_of_world_sum L h df exclude_partners =
     (case prep_kg_rows L h df of
        Inl e \<Rightarrow> Inl e
      | Inr (h, d) \<Rightarrow>
          let (h, d) = alloc h (select_rows (h ! d)
                         (map Not (isin (get_col (h ! d) ''Partner'') exclude_partners)))
          in Inr (h, series_sum (get_col (h ! d) ''Quantity''),
                     series_sum (get_col (h ! d) ''Trade Value 1000USD'')))"

definition inverse_flow :: "string \<Rightarrow> string" where
  "inverse_flow flow = (if flow = ''I'' then ''E'' else ''I'')"

definition flow_label :: "string \<Rightarrow> string" where
  "flow_label flow = (if flow = ''I'' then ''Import'' else ''Export'')"

section \<open>Main aggregation\<close>

text \<open>
  A \<^verbatim>\<open>for\<close> loop whose body may raise: the state is threaded through the
  elements and the first error ends the loop.
\<close>

fun for_loop :: "('a \<Rightarrow> 's \<Rightarrow> error + 's) \<Rightarrow> 'a list \<Rightarrow> 's \<Rightarrow> error + 's" where
  "for_loop body [] s = Inr s"
| "for_loop body (x # xs) s =
     (case body x s of Inl e \<Rightarrow> Inl e | Inr s' \<Rightarrow> for_loop body xs s')"

type_synonym acc = "key \<rightharpoonup> real"

text \<open>The two dict comprehensions that initialise the accumulators.\<close>

definition qty_acc0 :: acc where
  "qty_acc0 =
     map_of [((reporter, partner, year, flow), 0).
               reporter \<leftarrow> map fst REPORTERS, partner \<leftarrow> PARTNERS, year \<leftarrow> YEARS, flow \<leftarrow> FLOWS]"

definition val1000_acc0 :: acc where
  "val1000_acc0 =
     map_of [((reporter, partner, year, flow), 0).
               reporter \<leftarrow> map fst REPORTERS, partner \<leftarrow> PARTNERS, year \<leftarrow> YEARS, flow \<leftarrow> FLOWS]"

text \<open>\<^verbatim>\<open>acc[k] += x\<close> and \<^verbatim>\<open>acc[k]\<close>: both raise \<^verbatim>\<open>KeyError\<close> on an absent key.\<close>

definition acc_add :: "acc \<Rightarrow> key \<Rightarrow> real \<Rightarrow> error + acc" where
  "acc_add a k x = (case a k of None \<Rightarrow> Inl (KeyError k) | Some v \<Rightarrow> Inr (a(k \<mapsto> v + x)))"

definition acc_get :: "acc \<Rightarrow> key \<Rightarrow> error + real" where
  "acc_get a k = (case a k of None \<Rightarrow> Inl (KeyError k) | Some v \<Rightarrow> Inr v)"

text \<open>
  The body of the loop over \<^verbatim>\<open>sums.items()\<close>, lines 182 to 184: the sums of one
  partner are added to the two accumulators.
\<close>

definition add_sums ::
    "string \<Rightarrow> int \<Rightarrow> string \<Rightarrow> string \<times> real \<times> real \<Rightarrow> acc \<times> acc \<Rightarrow> error + acc \<times> acc" where
  "add_sums reporter_label year flow =
     (\<lambda>(partner, qty, val1000) (qty_acc, val1000_acc).
        case acc_add qty_acc (reporter_label, partner, year, flow) qty of
          Inl e \<Rightarrow> Inl e
        | Inr qty_acc \<Rightarrow>
            (case acc_add val1000_acc (reporter_label, partner, year, flow) val1000 of
               Inl e \<Rightarrow> Inl e
             | Inr val1000_acc \<Rightarrow> Inr (qty_acc, val1000_acc)))"

text \<open>
  The body of the innermost loop (lines 163 to 184). Building the URL, the cache and
  the download and parsing of the sheet are the parameter \<open>fetch\<close>, which gives the
  parsed sheet of a reporter code, year, flow and product, or an error. The sheet is a
  fresh object, so the store of the body starts with it alone. The dict \<^verbatim>\<open>sums\<close> is
  \<open>partner_sums\<close> here.
\<close>

definition process_product ::
    "(string \<Rightarrow> int \<Rightarrow> string \<Rightarrow> string \<Rightarrow> error + dataframe) \<Rightarrow> pandas \<Rightarrow>
     string \<Rightarrow> string \<Rightarrow> int \<Rightarrow> string \<Rightarrow> string \<Rightarrow> acc \<times> acc \<Rightarrow> error + acc \<times> acc" where
  "process_product fetch L reporter_label reporter_code year flow product accs =
     (case fetch reporter_code year flow product of
        Inl e \<Rightarrow> Inl e
      | Inr sheet \<Rightarrow>
          let (h, sheet_df) = alloc [] sheet
          in case get_qty_and_value_sums_for_partners L h sheet_df PARTNERS of
               Inl e \<Rightarrow> Inl e
             | Inr (h, partner_sums) \<Rightarrow>
                 (case get_rest_of_world_sum L h sheet_df EXCLUDE_FOR_ROW of
                    Inl e \<Rightarrow> Inl e
                  | Inr (h, row_qty, row_val1000) \<Rightarrow>
                      let partner_sums = AList.update ''World'' (row_qty, row_val1000) partner_sums
                      in for_loop (add_sums reporter_label year flow) partner_sums accs))"

definition main_loop ::
    "(string \<Rightarrow> int \<Rightarrow> string \<Rightarrow> string \<Rightarrow> error + dataframe) \<Rightarrow> pandas \<Rightarrow> error + acc \<times> acc" where
  "main_loop fetch L =
     for_loop (\<lambda>(reporter_label, reporter_code).
       for_loop (\<lambda>year.
         for_loop (\<lambda>flow.
           for_loop (\<lambda>product.
               process_product fetch L reporter_label reporter_code year flow product)
             PRODUCTS)
           FLOWS)
         YEARS)
       REPORTERS (qty_acc0, val1000_acc0)"

section \<open>Table builder\<close>

record out_row =
  Reporter :: string
  Partner :: string
  Tradeflow :: string
  Year :: int
  Quantity_in_kg :: real
  Trade_Value_USD :: real
  Trade_Value_EUR :: "real option"

text \<open>The body of the loop of part (1), lines 198 to 212.\<close>

definition primary_row ::
    "acc \<Rightarrow> acc \<Rightarrow> string \<Rightarrow> string \<Rightarrow> int \<Rightarrow> string \<Rightarrow> out_row list \<Rightarrow> error + out_row list" where
  "primary_row qty_acc val1000_acc reporter_label partner year flow rows =
     (case acc_get val1000_acc (reporter_label, partner, year, flow) of
        Inl e \<Rightarrow> Inl e
      | Inr v \<Rightarrow>
          let trade_value_usd = v * 1000;
              eur_rate = USD_TO_EUR year;
              trade_value_eur = (case eur_rate of Some rate \<Rightarrow> Some (trade_value_usd * rate)
                                 | None \<Rightarrow> None)
          in case acc_get qty_acc (reporter_label, partner, year, flow) of
               Inl e \<Rightarrow> Inl e
             | Inr q \<Rightarrow>
                 Inr (rows @
                   [\<lparr>Reporter = reporter_label, Partner = partner, Tradeflow = flow_label flow,
                     Year = year, Quantity_in_kg = q, Trade_Value_USD = trade_value_usd,
                     Trade_Value_EUR = trade_value_eur\<rparr>]))"

definition primary_rows :: "acc \<Rightarrow> acc \<Rightarrow> out_row list \<Rightarrow> error + out_row list" where
  "primary_rows qty_acc val1000_acc =
     for_loop (\<lambda>reporter_label.
       for_loop (\<lambda>partner.
         for_loop (\<lambda>year.
           for_loop (\<lambda>flow. primary_row qty_acc val1000_acc reporter_label partner year flow)
             FLOWS)
           YEARS)
         PARTNERS)
       (map fst REPORTERS)"

text \<open>The body of the loop of part (2), lines 223 to 242.\<close>

definition mirrored_row ::
    "acc \<Rightarrow> acc \<Rightarrow> string \<Rightarrow> int \<Rightarrow> string \<Rightarrow> out_row list \<Rightarrow> error + out_row list" where
  "mirrored_row qty_acc val1000_acc reporter_label year flow rows =
     (let eu_partner_name = reporter_label;
          inv = inverse_flow flow
      in case acc_get qty_acc (REGION_LABEL_EU, eu_partner_name, year, inv) of
           Inl e \<Rightarrow> Inl e
         | Inr qty_from_eu \<Rightarrow>
             (case acc_get val1000_acc (REGION_LABEL_EU, eu_partner_name, year, inv) of
                Inl e \<Rightarrow> Inl e
              | Inr val1000_from_eu \<Rightarrow>
                  let trade_value_usd = val1000_from_eu * 1000;
                      eur_rate = USD_TO_EUR year;
                      trade_value_eur = (case eur_rate of Some rate \<Rightarrow> Some (trade_value_usd * rate)
                                         | None \<Rightarrow> None)
                  in Inr (rows @
                       [\<lparr>Reporter = reporter_label, Partner = REGION_LABEL_EU,
                         Tradeflow = flow_label flow, Year = year, Quantity_in_kg = qty_from_eu,
                         Trade_Value_USD = trade_value_usd,
                         Trade_Value_EUR = trade_value_eur\<rparr>])))"

definition mirrored_rows :: "acc \<Rightarrow> acc \<Rightarrow> out_row list \<Rightarrow> error + out_row list" where
  "mirrored_rows qty_acc val1000_acc =
     for_loop (\<lambda>reporter_label rows.
         if reporter_label = REGION_LABEL_EU then Inr rows
         else for_loop (\<lambda>year.
                for_loop (\<lambda>flow. mirrored_row qty_acc val1000_acc reporter_label year flow)
                  FLOWS)
                YEARS rows)
       (map fst REPORTERS)"

text \<open>
  Lines 247 to 252. \<^verbatim>\<open>sort_values\<close> is the sort of the library by the key
  (Reporter, Partner, Year, Tradeflow), strings compared character by character.
\<close>

definition sort_key_of :: "out_row \<Rightarrow> string \<times> string \<times> int \<times> string" where
  "sort_key_of r = (Reporter r, Partner r, Year r, Tradeflow r)"

definition drop_self_pairs :: "out_row list \<Rightarrow> out_row list" where
  "drop_self_pairs out = filter (\<lambda>r. Reporter r \<noteq> Partner r) out"

definition rename_world :: "out_row list \<Rightarrow> out_row list" where
  "rename_world out =
     map (\<lambda>r. if Partner r = ''World'' then r\<lparr>Partner := ''Rest of World''\<rparr> else r) out"

definition post_process :: "out_row list \<Rightarrow> out_row list" where
  "post_process rows = sort_key sort_key_of (rename_world (drop_self_pairs rows))"

definition build_table :: "acc \<Rightarrow> acc \<Rightarrow> error + out_row list" where
  "build_table qty_acc val1000_acc =
     (case primary_rows qty_acc val1000_acc [] of
        Inl e \<Rightarrow> Inl e
      | Inr rows \<Rightarrow>
          (case mirrored_rows qty_acc val1000_acc rows of
             Inl e \<Rightarrow> Inl e
           | Inr rows \<Rightarrow> Inr (post_process rows)))"

text \<open>The whole run, up to the table that is written out.\<close>

definition run ::
    "(string \<Rightarrow> int \<Rightarrow> string \<Rightarrow> string \<Rightarrow> error + dataframe) \<Rightarrow> pandas \<Rightarrow> error + out_row list" where
  "run fetch L =
     (case main_loop fetch L of
        Inl e \<Rightarrow> Inl e
      | Inr (qty_acc, val1000_acc) \<Rightarrow> build_table qty_acc val1000_acc)"

section \<open>Notions used to state the properties\<close>

text \<open>The four columns that \<^verbatim>\<open>_prep_kg_rows\<close> requires.\<close>

definition required_columns :: "string list" where
  "required_columns = [''Partner'', ''Quantity'', ''Quantity Unit'', ''Trade Value 1000USD'']"

definition missing_columns :: "dataframe \<Rightarrow> string list" where
  "missing_columns df = filter (\<lambda>c. c \<notin> set (columns df)) required_columns"

text \<open>
  What one row of a sheet stands for: its trimmed partner label, its trimmed unit,
  whether the unit is kilograms, and the number a cell is coerced to (zero when it is
  empty or does not parse).
\<close>

definition partner_label :: "pandas \<Rightarrow> row \<Rightarrow> string" where
  "partner_label L r = strip (py_str L (r ''Partner''))"

definition unit_label :: "pandas \<Rightarrow> row \<Rightarrow> string" where
  "unit_label L r = strip (py_str L (r ''Quantity Unit''))"

definition is_kg_row :: "pandas \<Rightarrow> row \<Rightarrow> bool" where
  "is_kg_row L r \<longleftrightarrow> lower (unit_label L r) = ''kg''"

definition coerce :: "pandas \<Rightarrow> cell \<Rightarrow> real" where
  "coerce L c = cell_value (to_numeric_cell L c)"

text \<open>
  The integer that a cell is or parses to, and whether a column is an integer column
  once prepared: every cell of it in a kilogram row is or parses to an integer.
\<close>

definition int_value :: "pandas \<Rightarrow> cell \<Rightarrow> 64 word" where
  "int_value L c = int_of (to_numeric_cell L c)"

definition int_column :: "pandas \<Rightarrow> dataframe \<Rightarrow> string \<Rightarrow> bool" where
  "int_column L df c \<longleftrightarrow>
     list_all (\<lambda>r. is_int (to_numeric_cell L (r c))) (filter (is_kg_row L) (records df))"

text \<open>The row after the two label columns are trimmed, and the fully prepared row.\<close>

definition stripped :: "pandas \<Rightarrow> row \<Rightarrow> row" where
  "stripped L r =
     r(''Partner'' := Str (partner_label L r), ''Quantity Unit'' := Str (unit_label L r))"

definition num_cell :: "pandas \<Rightarrow> bool \<Rightarrow> cell \<Rightarrow> cell" where
  "num_cell L ints c = (if ints then Int64 (int_value L c) else Num (coerce L c))"

definition prepared_row :: "pandas \<Rightarrow> bool \<Rightarrow> bool \<Rightarrow> row \<Rightarrow> row" where
  "prepared_row L qi vi r =
     (stripped L r)(''Quantity'' := num_cell L qi (r ''Quantity''),
                    ''Trade Value 1000USD'' := num_cell L vi (r ''Trade Value 1000USD''))"

definition stripped_frame :: "pandas \<Rightarrow> dataframe \<Rightarrow> dataframe" where
  "stripped_frame L df = df\<lparr>records := map (stripped L) (records df)\<rparr>"

definition prepared :: "pandas \<Rightarrow> dataframe \<Rightarrow> dataframe" where
  "prepared L df =
     df\<lparr>records :=
          map (prepared_row L (int_column L df ''Quantity'')
                 (int_column L df ''Trade Value 1000USD''))
            (filter (is_kg_row L) (records df))\<rparr>"

text \<open>
  The sums of column \<open>c\<close> over the kilogram rows of a sheet that satisfy \<open>P\<close>:
  \<open>exact_sum\<close> is the sum of the numbers the cells are coerced to; \<open>int_sum\<close> is the
  sum of the integers of an integer column; \<open>kg_sum\<close> is the sum as pandas takes it,
  which for an integer column is the integer sum in 64 bits. \<open>no_wrap\<close> says that the
  sum of an integer column stays within 64 bits.
\<close>

definition selected :: "pandas \<Rightarrow> dataframe \<Rightarrow> (row \<Rightarrow> bool) \<Rightarrow> row list" where
  "selected L df P = filter (\<lambda>r. is_kg_row L r \<and> P r) (records df)"



definition col_sum :: "pandas \<Rightarrow> bool \<Rightarrow> string \<Rightarrow> row list \<Rightarrow> real" where
  "col_sum L ints c rs =
     (if ints then real_of_int (sint (sum_list (map (\<lambda>r. int_value L (r c)) rs)))
      else sum_list (map (\<lambda>r. coerce L (r c)) rs))"

definition kg_sum :: "pandas \<Rightarrow> dataframe \<Rightarrow> (row \<Rightarrow> bool) \<Rightarrow> string \<Rightarrow> real" where
  "kg_sum L df P c = col_sum L (int_column L df c) c (selected L df P)"


text \<open>The result of an operation without the store it returns.\<close>

definition result :: "error + heap \<times> 'a \<Rightarrow> error + 'a" where
  "result x = (case x of Inl e \<Rightarrow> Inl e | Inr (h, v) \<Rightarrow> Inr v)"

text \<open>
  The sheet of the worked example: partner China with quantity 100, unit \<^verbatim>\<open>Kg\<close> and value
  50, and partner Japan with quantity 10, unit \<^verbatim>\<open>KG\<close> and value 5. \<open>short_sheet\<close> is the
  same sheet without its unit column.
\<close>

definition example_sheet :: dataframe where
  "example_sheet =
     \<lparr>columns = [''Partner'', ''Quantity'', ''Quantity Unit'', ''Trade Value 1000USD''],
      records =
        [(\<lambda>c. NaN)(''Partner'' := Str ''China'', ''Quantity'' := Num 100,
                     ''Quantity Unit'' := Str ''Kg'', ''Trade Value 1000USD'' := Num 50),
         (\<lambda>c. NaN)(''Partner'' := Str ''Japan'', ''Quantity'' := Num 10,
                     ''Quantity Unit'' := Str ''KG'', ''Trade Value 1000USD'' := Num 5)]\<rparr>"

definition short_sheet :: dataframe where
  "short_sheet =
     \<lparr>columns = [''Partner'', ''Quantity'', ''Trade Value 1000USD''],
      records =
        [(\<lambda>c. NaN)(''Partner'' := Str ''China'', ''Quantity'' := Num 100,
                     ''Trade Value 1000USD'' := Num 50)]\<rparr>"

text \<open>
  A library whose parser accepts no string, for examples in which every number is
  already a numeric cell and every label a string cell.
\<close>

definition plain_lib :: pandas where
  "plain_lib = \<lparr>parse_numeric = (\<lambda>s. None), float_str = (\<lambda>v. []), int_str = (\<lambda>w. [])\<rparr>"

text \<open>
  A sheet with some of its rows dropped, and a download whose sheets have rows dropped.
\<close>

definition drop_rows :: "(row \<Rightarrow> bool) \<Rightarrow> dataframe \<Rightarrow> dataframe" where
  "drop_rows keep df = df\<lparr>records := filter keep (records df)\<rparr>"

definition drop_rows_fetch ::
    "(row \<Rightarrow> bool) \<Rightarrow> (string \<Rightarrow> int \<Rightarrow> string \<Rightarrow> string \<Rightarrow> error + dataframe) \<Rightarrow>
     string \<Rightarrow> int \<Rightarrow> string \<Rightarrow> string \<Rightarrow> error + dataframe" where
  "drop_rows_fetch keep fetch code year flow product =
     (case fetch code year flow product of
        Inl e \<Rightarrow> Inl e
      | Inr sheet \<Rightarrow> Inr (drop_rows keep sheet))"

text \<open>
  What one sheet contributes to the accumulators under a partner key: the rest-of-world
  sum under the key World, and the entry of the partner in the result of
  sum-for-partners under any other key.
\<close>

definition contribution :: "pandas \<Rightarrow> dataframe \<Rightarrow> string \<Rightarrow> real \<times> real" where
  "contribution L sheet partner =
     (if partner = ''World''
      then (case result (get_rest_of_world_sum L [sheet] 0 EXCLUDE_FOR_ROW) of
              Inr qv \<Rightarrow> qv | Inl e \<Rightarrow> (0, 0))
      else (case result (get_qty_and_value_sums_for_partners L [sheet] 0 PARTNERS) of
              Inr out \<Rightarrow> (case map_of out partner of Some qv \<Rightarrow> qv | None \<Rightarrow> (0, 0))
            | Inl e \<Rightarrow> (0, 0)))"

text \<open>The sheet that a successful download gives.\<close>

definition fetched ::
    "(string \<Rightarrow> int \<Rightarrow> string \<Rightarrow> string \<Rightarrow> error + dataframe) \<Rightarrow>
     string \<Rightarrow> int \<Rightarrow> string \<Rightarrow> string \<Rightarrow> dataframe" where
  "fetched fetch code year flow product =
     (case fetch code year flow product of
        Inr sheet \<Rightarrow> sheet
      | Inl e \<Rightarrow> \<lparr>columns = [], records = []\<rparr>)"

text \<open>The keys of the configured Cartesian product.\<close>

definition configured_keys :: "key set" where
  "configured_keys =
     {(reporter, partner, year, flow).
        reporter \<in> fst ` set REPORTERS \<and> partner \<in> set PARTNERS \<and>
        year \<in> set YEARS \<and> flow \<in> set FLOWS}"

text \<open>
  The sum over the nine products of one component (\<open>fst\<close> for the quantity, \<open>snd\<close> for the
  value) of what the sheets of a reporter code, year and flow contribute to a partner.
\<close>

definition product_total ::
    "(real \<times> real \<Rightarrow> real) \<Rightarrow> (string \<Rightarrow> int \<Rightarrow> string \<Rightarrow> string \<Rightarrow> error + dataframe) \<Rightarrow>
     pandas \<Rightarrow> string \<Rightarrow> string \<Rightarrow> int \<Rightarrow> string \<Rightarrow> real" where
  "product_total pick fetch L code partner year flow =
     sum_list (map (\<lambda>product. pick (contribution L (fetched fetch code year flow product) partner))
                PRODUCTS)"

text \<open>Every configured key has an entry in both accumulators.\<close>

definition all_keys_present :: "acc \<times> acc \<Rightarrow> bool" where
  "all_keys_present s \<longleftrightarrow> (\<forall>k \<in> configured_keys. fst s k \<noteq> None \<and> snd s k \<noteq> None)"

text \<open>
  Every sheet that the main loop asks for is downloaded and has the four required columns.
\<close>

definition all_sheets_good ::
    "(string \<Rightarrow> int \<Rightarrow> string \<Rightarrow> string \<Rightarrow> error + dataframe) \<Rightarrow> bool" where
  "all_sheets_good fetch \<longleftrightarrow>
     (\<forall>code \<in> snd ` set REPORTERS. \<forall>year \<in> set YEARS. \<forall>flow \<in> set FLOWS.
        \<forall>product \<in> set PRODUCTS.
          \<exists>sheet. fetch code year flow product = Inr sheet \<and> missing_columns sheet = [])"

text \<open>
  The example sheet with a third row, in another unit; and a download that gives the
  example sheet for every request.
\<close>

definition mixed_sheet :: dataframe where
  "mixed_sheet =
     example_sheet\<lparr>records := records example_sheet @
        [(\<lambda>c. NaN)(''Partner'' := Str ''Japan'', ''Quantity'' := Num 7,
                     ''Quantity Unit'' := Str ''Item'', ''Trade Value 1000USD'' := Num 3)]\<rparr>"

definition example_fetch :: "string \<Rightarrow> int \<Rightarrow> string \<Rightarrow> string \<Rightarrow> error + dataframe" where
  "example_fetch code year flow product = Inr example_sheet"

text \<open>
  The output row built from the accumulator entries of a key, with a given reporter,
  partner, flow and year; the rows of part (1) and of part (2) are instances of it.
\<close>

definition emitted_row :: "acc \<Rightarrow> acc \<Rightarrow> key \<Rightarrow> string \<Rightarrow> string \<Rightarrow> string \<Rightarrow> int \<Rightarrow> out_row" where
  "emitted_row qty_acc val1000_acc k reporter partner flow year =
     \<lparr>Reporter = reporter, Partner = partner, Tradeflow = flow_label flow, Year = year,
      Quantity_in_kg = the (qty_acc k), Trade_Value_USD = the (val1000_acc k) * 1000,
      Trade_Value_EUR = (case USD_TO_EUR year of
                           Some rate \<Rightarrow> Some (the (val1000_acc k) * 1000 * rate)
                         | None \<Rightarrow> None)\<rparr>"

definition mirrored_of :: "acc \<Rightarrow> acc \<Rightarrow> string \<Rightarrow> int \<Rightarrow> string \<Rightarrow> out_row" where
  "mirrored_of qty_acc val1000_acc reporter year flow =
     emitted_row qty_acc val1000_acc (REGION_LABEL_EU, reporter, year, inverse_flow flow)
       reporter REGION_LABEL_EU flow year"

definition primary_of :: "acc \<Rightarrow> acc \<Rightarrow> string \<Rightarrow> string \<Rightarrow> int \<Rightarrow> string \<Rightarrow> out_row" where
  "primary_of qty_acc val1000_acc reporter partner year flow =
     emitted_row qty_acc val1000_acc (reporter, partner, year, flow) reporter partner flow year"

text \<open>The rows of part (2) and of part (1), in the order the loops append them.\<close>

definition mirrored_list :: "acc \<Rightarrow> acc \<Rightarrow> out_row list" where
  "mirrored_list qa va =
     concat (map (\<lambda>rl. if rl = REGION_LABEL_EU then []
                        else concat (map (\<lambda>y. map (mirrored_of qa va rl y) FLOWS) YEARS))
              (map fst REPORTERS))"

definition primary_list :: "acc \<Rightarrow> acc \<Rightarrow> out_row list" where
  "primary_list qa va =
     concat (map (\<lambda>rl. concat (map (\<lambda>p. concat (map (\<lambda>y. map (primary_of qa va rl p y) FLOWS)
                                                  YEARS)) PARTNERS))
              (map fst REPORTERS))"



text \<open>
  A sheet with one row whose unit is \<^verbatim>\<open>kg\<close> followed by a space, and one whose unit is
  \<^verbatim>\<open>kg\<close> followed by a no-break space.
\<close>

definition nbsp_sheet :: dataframe where
  "nbsp_sheet =
     \<lparr>columns = [''Partner'', ''Quantity'', ''Quantity Unit'', ''Trade Value 1000USD''],
      records =
        [(\<lambda>c. NaN)(''Partner'' := Str (''China'' @ [CHR 0xA0]), ''Quantity'' := Num 7,
                     ''Quantity Unit'' := Str (''kg'' @ [CHR 0xA0]),
                     ''Trade Value 1000USD'' := Num 3)]\<rparr>"

definition spaced_sheet :: dataframe where
  "spaced_sheet =
     \<lparr>columns = [''Partner'', ''Quantity'', ''Quantity Unit'', ''Trade Value 1000USD''],
      records =
        [(\<lambda>c. NaN)(''Partner'' := Str ''Japan'', ''Quantity'' := Num 7,
                     ''Quantity Unit'' := Str ''kg '', ''Trade Value 1000USD'' := Num 3)]\<rparr>"

section \<open>Row preparation\<close>

lemma zip_map_same: "zip xs (map f xs) = map (\<lambda>x. (x, f x)) xs"
  by (induction xs) auto

lemma set_col_map:
  "c \<in> set (columns df) \<Longrightarrow>
   set_col df c (map f (records df)) = df\<lparr>records := map (\<lambda>r. r(c := f r)) (records df)\<rparr>"
  by (simp add: set_col_def zip_map_same o_def)

lemma select_rows_map: "select_rows df (map P (records df)) = df\<lparr>records := filter P (records df)\<rparr>"
  by (simp add: select_rows_def zip_map_same filter_map o_def)

lemma strip_astype_col:
  "str_strip (astype_str L (get_col df c)) = map (\<lambda>r. Str (strip (py_str L (r c)))) (records df)"
  by (simp add: str_strip_def astype_str_def get_col_def o_def)

lemma kg_mask:
  "eq_str (str_lower (get_col df c)) v =
   map (\<lambda>r. (case r c of Str x \<Rightarrow> Str (lower x) | _ \<Rightarrow> NaN) = Str v) (records df)"
  by (simp add: eq_str_def str_lower_def get_col_def o_def)

lemma to_numeric_cell_not_Str: "to_numeric_cell L c \<noteq> Str x"
  by (simp add: to_numeric_cell_def split: cell.splits option.splits number.splits)

lemma fillna_float_cell:
  "(case as_float (to_numeric_cell L c) of NaN \<Rightarrow> Num 0 | _ \<Rightarrow> as_float (to_numeric_cell L c)) =
   Num (coerce L c)"
proof (cases "to_numeric_cell L c")
  case (Str x)
  with to_numeric_cell_not_Str show ?thesis by blast
qed (simp_all add: coerce_def cell_value_def as_float_def)

lemma fillna_int_cell:
  assumes "is_int (to_numeric_cell L c)"
  shows "(case to_numeric_cell L c of NaN \<Rightarrow> Num 0 | _ \<Rightarrow> to_numeric_cell L c) =
         Int64 (int_value L c)"
  using assms by (cases "to_numeric_cell L c") (simp_all add: is_int_def int_value_def int_of_def)

lemma numeric_series:
  "fillna 0 (to_numeric L (map (\<lambda>r. r c) rs)) =
   map (\<lambda>r. num_cell L (list_all (\<lambda>r. is_int (to_numeric_cell L (r c))) rs) (r c)) rs"
proof (cases "list_all (\<lambda>r. is_int (to_numeric_cell L (r c))) rs")
  case True
  then have "list_all is_int (map (to_numeric_cell L) (map (\<lambda>r. r c) rs))"
    by (simp add: list_all_iff)
  moreover from True have "\<forall>r \<in> set rs. is_int (to_numeric_cell L (r c))"
    by (simp add: list_all_iff)
  ultimately show ?thesis
    using True by (simp add: fillna_def to_numeric_def Let_def o_def num_cell_def fillna_int_cell)
next
  case False
  then have "\<not> list_all is_int (map (to_numeric_cell L) (map (\<lambda>r. r c) rs))"
    by (simp add: list_all_iff)
  with False show ?thesis
    by (simp add: fillna_def to_numeric_def Let_def o_def num_cell_def fillna_float_cell)
qed

lemma numeric_col:
  "fillna 0 (to_numeric L (get_col df c)) =
   map (\<lambda>r. num_cell L (list_all (\<lambda>r. is_int (to_numeric_cell L (r c))) (records df)) (r c))
     (records df)"
  unfolding get_col_def by (rule numeric_series)

lemma alloc_eq: "alloc h d = (h @ [d], length h)"
  by (simp add: alloc_def)

lemma assign_last: "assign (h @ [d]) (length h) c s = h @ [set_col d c s]"
  by (simp add: assign_def)

lemma assign_last2: "assign (h @ [a, d]) (Suc (length h)) c s = h @ [a, set_col d c s]"
  by (simp add: assign_def list_update_append nth_append)

lemma nth_last2: "(h @ [a, d]) ! Suc (length h) = d"
  by (simp add: nth_append)

lemma prep_frames:
  assumes req: "set required_columns \<subseteq> set (columns d0)"
  shows "set_col (set_col d0 ''Partner'' (str_strip (astype_str L (get_col d0 ''Partner''))))
            ''Quantity Unit''
            (str_strip (astype_str L (get_col
               (set_col d0 ''Partner'' (str_strip (astype_str L (get_col d0 ''Partner''))))
               ''Quantity Unit''))) = stripped_frame L d0" (is ?A)
    and "set_col
           (set_col
              (select_rows (stripped_frame L d0)
                 (eq_str (str_lower (get_col (stripped_frame L d0) ''Quantity Unit'')) ''kg''))
              ''Quantity''
              (fillna 0 (to_numeric L (get_col (select_rows (stripped_frame L d0)
                 (eq_str (str_lower (get_col (stripped_frame L d0) ''Quantity Unit'')) ''kg''))
                 ''Quantity''))))
           ''Trade Value 1000USD''
           (fillna 0 (to_numeric L (get_col
              (set_col
                (select_rows (stripped_frame L d0)
                   (eq_str (str_lower (get_col (stripped_frame L d0) ''Quantity Unit'')) ''kg''))
                ''Quantity''
                (fillna 0 (to_numeric L (get_col (select_rows (stripped_frame L d0)
                   (eq_str (str_lower (get_col (stripped_frame L d0) ''Quantity Unit'')) ''kg''))
                   ''Quantity''))))
              ''Trade Value 1000USD''))) = prepared L d0" (is ?B)
proof -
  have cols: "''Partner'' \<in> set (columns d0)" "''Quantity'' \<in> set (columns d0)"
    "''Quantity Unit'' \<in> set (columns d0)" "''Trade Value 1000USD'' \<in> set (columns d0)"
    using req by (simp_all add: required_columns_def)
  define d1 where "d1 = set_col d0 ''Partner'' (str_strip (astype_str L (get_col d0 ''Partner'')))"
  have d1: "d1 = d0\<lparr>records := map (\<lambda>r. r(''Partner'' := Str (partner_label L r))) (records d0)\<rparr>"
    unfolding d1_def strip_astype_col by (simp add: set_col_map cols partner_label_def)
  have c1: "''Quantity Unit'' \<in> set (columns d1)" by (simp add: d1 cols)
  have "set_col d1 ''Quantity Unit'' (str_strip (astype_str L (get_col d1 ''Quantity Unit'')))
        = d1\<lparr>records := map (\<lambda>r. r(''Quantity Unit'' := Str (strip (py_str L (r ''Quantity Unit''))))) (records d1)\<rparr>"
    unfolding strip_astype_col by (rule set_col_map [OF c1])
  also have "\<dots> = stripped_frame L d0"
    by (simp add: d1 stripped_frame_def stripped_def o_def unit_label_def)
  finally show ?A unfolding d1_def .
  define d2 where "d2 = stripped_frame L d0"
  define d3 where "d3 = select_rows d2 (eq_str (str_lower (get_col d2 ''Quantity Unit'')) ''kg'')"
  have d3: "d3 = d0\<lparr>records := map (stripped L) (filter (is_kg_row L) (records d0))\<rparr>"
    unfolding d3_def kg_mask select_rows_map
    by (simp add: d2_def stripped_frame_def filter_map o_def stripped_def is_kg_row_def[abs_def])
  define d4 where "d4 = set_col d3 ''Quantity'' (fillna 0 (to_numeric L (get_col d3 ''Quantity'')))"
  have c3: "''Quantity'' \<in> set (columns d3)" by (simp add: d3 cols)
  have qi: "list_all (\<lambda>r. is_int (to_numeric_cell L (r ''Quantity''))) (records d3) =
            int_column L d0 ''Quantity''"
    by (simp add: d3 int_column_def list_all_iff stripped_def)
  have d4: "d4 = d3\<lparr>records :=
              map (\<lambda>r. r(''Quantity'' := num_cell L (int_column L d0 ''Quantity'') (r ''Quantity'')))
                (records d3)\<rparr>"
    unfolding d4_def numeric_col qi by (rule set_col_map [OF c3])
  have c4: "''Trade Value 1000USD'' \<in> set (columns d4)" by (simp add: d4 d3 cols)
  have vi: "list_all (\<lambda>r. is_int (to_numeric_cell L (r ''Trade Value 1000USD''))) (records d4) =
            int_column L d0 ''Trade Value 1000USD''"
    by (simp add: d4 d3 int_column_def list_all_iff stripped_def)
  have "set_col d4 ''Trade Value 1000USD''
          (fillna 0 (to_numeric L (get_col d4 ''Trade Value 1000USD'')))
        = d4\<lparr>records :=
              map (\<lambda>r. r(''Trade Value 1000USD'' :=
                     num_cell L (int_column L d0 ''Trade Value 1000USD'') (r ''Trade Value 1000USD'')))
                (records d4)\<rparr>"
    unfolding numeric_col vi by (rule set_col_map [OF c4])
  also have "\<dots> = prepared L d0"
    by (simp add: d4 d3 prepared_def prepared_row_def o_def stripped_def)
  finally show ?B unfolding d4_def d3_def d2_def .
qed

lemma missing_columns_Nil:
  "missing_columns df = [] \<longleftrightarrow> set required_columns \<subseteq> set (columns df)"
  by (auto simp: missing_columns_def filter_empty_conv)

lemma prep_kg_rows_eq:
  assumes "df < length h"
  shows "prep_kg_rows L h df =
           (if missing_columns (h ! df) \<noteq> []
            then Inl (ValueError (missing_columns (h ! df)) (columns (h ! df)))
            else Inr (h @ [stripped_frame L (h ! df), prepared L (h ! df)], Suc (length h)))"
proof (cases "missing_columns (h ! df) = []")
  case True
  then have req: "set required_columns \<subseteq> set (columns (h ! df))"
    by (simp add: missing_columns_Nil)
  from True show ?thesis
    unfolding prep_kg_rows_def Let_def required_columns_def [symmetric]
      missing_columns_def [symmetric]
    by (simp add: alloc_eq assign_last assign_last2 nth_last2 nth_append assms
          prep_frames [OF req] del: append.simps)
next
  case False
  then show ?thesis
    unfolding prep_kg_rows_def Let_def required_columns_def [symmetric]
      missing_columns_def [symmetric]
    by simp
qed

section \<open>The two aggregation operations\<close>

lemma prepared_row_apply:
  "prepared_row L qi vi r ''Partner'' = Str (partner_label L r)"
  "prepared_row L qi vi r ''Quantity Unit'' = Str (unit_label L r)"
  "prepared_row L qi vi r ''Quantity'' = num_cell L qi (r ''Quantity'')"
  "prepared_row L qi vi r ''Trade Value 1000USD'' = num_cell L vi (r ''Trade Value 1000USD'')"
  by (simp_all add: prepared_row_def stripped_def)

lemma records_prepared:
  "records (prepared L df) =
     map (prepared_row L (int_column L df ''Quantity'') (int_column L df ''Trade Value 1000USD''))
       (filter (is_kg_row L) (records df))"
  by (simp add: prepared_def)

lemma isin_col:
  "isin (get_col df c) vals = map (\<lambda>r. case r c of Str x \<Rightarrow> x \<in> vals | _ \<Rightarrow> False) (records df)"
  by (simp add: isin_def get_col_def o_def)

lemma not_isin_col:
  "map Not (isin (get_col df c) vals) =
   map (\<lambda>r. \<not> (case r c of Str x \<Rightarrow> x \<in> vals | _ \<Rightarrow> False)) (records df)"
  by (simp add: isin_def get_col_def o_def)

lemma series_sum_num_cells:
  "series_sum (map (\<lambda>r. num_cell L ints (r c)) rs) = col_sum L ints c rs"
proof (cases ints)
  case True
  then show ?thesis
    by (simp add: series_sum_def num_cell_def col_sum_def list_all_iff is_int_def int_of_def o_def)
next
  case False
  show ?thesis
  proof (cases rs)
    case Nil
    with False show ?thesis by (simp add: series_sum_def col_sum_def)
  next
    case (Cons r rs')
    with False show ?thesis
      by (simp add: series_sum_def num_cell_def col_sum_def is_int_def cell_value_def o_def)
  qed
qed

lemma series_sum_prepared:
  assumes "c = ''Quantity'' \<or> c = ''Trade Value 1000USD''"
  shows "series_sum (map (\<lambda>r. r c)
           (map (prepared_row L (int_column L df ''Quantity'')
                   (int_column L df ''Trade Value 1000USD'')) rs)) =
         col_sum L (int_column L df c) c rs"
  using assms series_sum_num_cells [of L "int_column L df c" c rs]
  by (auto simp: o_def prepared_row_apply)

lemma sum_prepared_col:
  assumes "c = ''Quantity'' \<or> c = ''Trade Value 1000USD''"
  shows "series_sum (get_col ((prepared L df)\<lparr>records := filter (\<lambda>r. Q (r ''Partner'')) (records (prepared L df))\<rparr>) c)
         = kg_sum L df (\<lambda>r. Q (Str (partner_label L r))) c"
proof -
  have "filter (\<lambda>r. Q (r ''Partner'')) (records (prepared L df)) =
        map (prepared_row L (int_column L df ''Quantity'') (int_column L df ''Trade Value 1000USD''))
          (selected L df (\<lambda>r. Q (Str (partner_label L r))))"
    by (simp add: records_prepared filter_map o_def prepared_row_apply selected_def)
  then show ?thesis
    by (simp add: get_col_def kg_sum_def series_sum_prepared [OF assms, unfolded map_map])
qed

lemma sum_not_isin:
  assumes "c = ''Quantity'' \<or> c = ''Trade Value 1000USD''"
  shows "series_sum (get_col ((prepared L df)\<lparr>records :=
            filter (\<lambda>r. \<not> (case r ''Partner'' of Str x \<Rightarrow> x \<in> ex | _ \<Rightarrow> False))
              (records (prepared L df))\<rparr>) c)
         = kg_sum L df (\<lambda>r. partner_label L r \<notin> ex) c"
  using sum_prepared_col [OF assms, where Q = "\<lambda>c. \<not> (case c of Str x \<Rightarrow> x \<in> ex | _ \<Rightarrow> False)"]
  by simp

lemma rest_eq:
  assumes "df < length h"
  shows "get_rest_of_world_sum L h df ex =
         (if missing_columns (h ! df) \<noteq> []
          then Inl (ValueError (missing_columns (h ! df)) (columns (h ! df)))
          else Inr (h @ [stripped_frame L (h ! df), prepared L (h ! df),
                         select_rows (prepared L (h ! df))
                           (map Not (isin (get_col (prepared L (h ! df)) ''Partner'') ex))],
                    kg_sum L (h ! df) (\<lambda>r. partner_label L r \<notin> ex) ''Quantity'',
                    kg_sum L (h ! df) (\<lambda>r. partner_label L r \<notin> ex) ''Trade Value 1000USD''))"
  unfolding get_rest_of_world_sum_def prep_kg_rows_eq [OF assms]
  by (simp add: alloc_eq nth_last2 nth_append not_isin_col select_rows_map sum_not_isin
      del: append.simps)

lemma fold_update_map_of:
  "map_of (fold (\<lambda>p out. AList.update p (f p) out) ps init) k =
     (if k \<in> set ps then Some (f k) else map_of init k)"
  by (induction ps arbitrary: init) (auto simp: update_conv')

lemma fold_update_keys:
  "fst ` set (fold (\<lambda>p out. AList.update p (f p) out) ps init) = set ps \<union> fst ` set init"
  by (induction ps arbitrary: init) (auto simp: dom_update)

lemma fold_update_distinct:
  "distinct (map fst init) \<Longrightarrow>
   distinct (map fst (fold (\<lambda>p out. AList.update p (f p) out) ps init))"
  by (induction ps arbitrary: init) (auto simp: distinct_update)

lemma groupby_sum_lookup:
  assumes t: "records t =
      map (prepared_row L (int_column L df ''Quantity'') (int_column L df ''Trade Value 1000USD'')) K"
  shows "(case map_of (groupby_sum t) (Str p) of Some qv \<Rightarrow> qv | None \<Rightarrow> (0, 0)) =
         (col_sum L (int_column L df ''Quantity'') ''Quantity''
            (filter (\<lambda>r. partner_label L r = p) K),
          col_sum L (int_column L df ''Trade Value 1000USD'') ''Trade Value 1000USD''
            (filter (\<lambda>r. partner_label L r = p) K))"
proof -
  have col: "get_col t ''Partner'' = map (\<lambda>r. Str (partner_label L r)) K"
    by (simp add: get_col_def t prepared_row_apply)
  have grp: "select_rows t (map (\<lambda>c. c = k) (get_col t ''Partner'')) =
             t\<lparr>records := filter (\<lambda>r. r ''Partner'' = k) (records t)\<rparr>" for k
    unfolding get_col_def map_map o_def by (rule select_rows_map)
  have lookup: "map_of (groupby_sum t) k =
      (if k \<in> set (get_col t ''Partner'') \<and> k \<noteq> NaN
       then Some (series_sum (get_col (t\<lparr>records := filter (\<lambda>r. r ''Partner'' = k) (records t)\<rparr>) ''Quantity''),
                  series_sum (get_col (t\<lparr>records := filter (\<lambda>r. r ''Partner'' = k) (records t)\<rparr>) ''Trade Value 1000USD''))
       else None)" for k
    unfolding groupby_sum_def Let_def grp
    by (simp add: map_of_map_restrict restrict_map_def)
  have group: "filter (\<lambda>r. r ''Partner'' = Str p) (records t) =
      map (prepared_row L (int_column L df ''Quantity'') (int_column L df ''Trade Value 1000USD''))
        (filter (\<lambda>r. partner_label L r = p) K)"
    by (simp add: t filter_map o_def prepared_row_apply)
  have sums: "series_sum (get_col (t\<lparr>records := filter (\<lambda>r. r ''Partner'' = Str p) (records t)\<rparr>) c) =
              col_sum L (int_column L df c) c (filter (\<lambda>r. partner_label L r = p) K)"
    if "c = ''Quantity'' \<or> c = ''Trade Value 1000USD''" for c
    by (simp add: get_col_def group series_sum_prepared [OF that, unfolded map_map])
  show ?thesis
  proof (cases "Str p \<in> set (get_col t ''Partner'')")
    case True
    then show ?thesis by (simp add: lookup sums)
  next
    case False
    then have "filter (\<lambda>r. partner_label L r = p) K = []"
      by (auto simp: col filter_empty_conv)
    with False show ?thesis by (simp add: lookup col_sum_def)
  qed
qed

lemma sums_eq:
  assumes "df < length h"
  shows "get_qty_and_value_sums_for_partners L h df partners =
         (if missing_columns (h ! df) \<noteq> []
          then Inl (ValueError (missing_columns (h ! df)) (columns (h ! df)))
          else Inr (h @ [stripped_frame L (h ! df), prepared L (h ! df),
                         select_rows (prepared L (h ! df))
                           (isin (get_col (prepared L (h ! df)) ''Partner'') (set partners))],
                    fold (\<lambda>p out. AList.update p
                            (kg_sum L (h ! df) (\<lambda>r. partner_label L r = p) ''Quantity'',
                             kg_sum L (h ! df) (\<lambda>r. partner_label L r = p) ''Trade Value 1000USD'') out)
                      partners []))"
proof (cases "missing_columns (h ! df) = []")
  case False
  then show ?thesis
    unfolding get_qty_and_value_sums_for_partners_def prep_kg_rows_eq [OF assms] by simp
next
  case True
  define t where "t = select_rows (prepared L (h ! df))
                           (isin (get_col (prepared L (h ! df)) ''Partner'') (set partners))"
  define K where "K = filter (\<lambda>r. is_kg_row L r \<and> partner_label L r \<in> set partners) (records (h ! df))"
  have t: "records t =
      map (prepared_row L (int_column L (h ! df) ''Quantity'')
             (int_column L (h ! df) ''Trade Value 1000USD'')) K"
    unfolding t_def isin_col select_rows_map
    by (simp add: records_prepared filter_map o_def prepared_row_apply K_def conj_commute)
  have body: "(\<lambda>p out. case map_of (groupby_sum t) (Str p) of
                         Some (q, v) \<Rightarrow> AList.update p (q, v) out
                       | None \<Rightarrow> AList.update p (0, 0) out) =
              (\<lambda>p out. AList.update p
                 (case map_of (groupby_sum t) (Str p) of Some qv \<Rightarrow> qv | None \<Rightarrow> (0, 0)) out)"
    by (auto simp: fun_eq_iff split: option.splits)
  have fold_cong': "fold (\<lambda>p. AList.update p (f p)) ps init = fold (\<lambda>p. AList.update p (g p)) ps init"
    if "\<forall>p \<in> set ps. f p = g p" for f g :: "string \<Rightarrow> real \<times> real" and ps init
    using that by (induction ps arbitrary: init) auto
  have K: "filter (\<lambda>r. partner_label L r = p) K = selected L (h ! df) (\<lambda>r. partner_label L r = p)"
    if "p \<in> set partners" for p
    using that by (auto simp: K_def selected_def intro: filter_cong)
  have "fold (\<lambda>p out. case map_of (groupby_sum t) (Str p) of
                         Some (q, v) \<Rightarrow> AList.update p (q, v) out
                       | None \<Rightarrow> AList.update p (0, 0) out) partners [] =
        fold (\<lambda>p out. AList.update p
                            (kg_sum L (h ! df) (\<lambda>r. partner_label L r = p) ''Quantity'',
                             kg_sum L (h ! df) (\<lambda>r. partner_label L r = p) ''Trade Value 1000USD'') out)
                      partners []"
    unfolding body
    by (rule fold_cong') (simp add: groupby_sum_lookup [OF t] kg_sum_def K)
  with True show ?thesis
    unfolding get_qty_and_value_sums_for_partners_def prep_kg_rows_eq [OF assms] Let_def
    by (simp add: alloc_eq nth_last2 nth_append t_def del: append.simps)
qed

section \<open>Integer sums\<close>










section \<open>The worked example\<close>

lemma lower_kg: "lower ''Kg'' = ''kg''" "lower ''KG'' = ''kg''" "lower ''kg'' = ''kg''"
  by code_simp+

lemma strip_plain:
  "strip ''Kg'' = ''Kg''" "strip ''KG'' = ''KG''" "strip ''kg'' = ''kg''"
  "strip ''China'' = ''China''" "strip ''Japan'' = ''Japan''"
  by (simp_all add: strip_def py_isspace_def)

lemma example_missing: "missing_columns example_sheet = []"
  by (simp add: missing_columns_def required_columns_def example_sheet_def)

lemma short_missing: "missing_columns short_sheet = [''Quantity Unit'']"
  by (simp add: missing_columns_def required_columns_def short_sheet_def)

lemma example_kg_sum:
  assumes "c = ''Quantity'' \<or> c = ''Trade Value 1000USD''"
  shows "kg_sum L example_sheet P c =
     (if P (hd (records example_sheet)) then coerce L (hd (records example_sheet) c) else 0) +
     (if P (hd (tl (records example_sheet))) then coerce L (hd (tl (records example_sheet)) c) else 0)"
  using assms
  by (auto simp: kg_sum_def col_sum_def int_column_def selected_def example_sheet_def is_kg_row_def
      unit_label_def py_str_def strip_plain lower_kg to_numeric_cell_def is_int_def)

lemma example_rest:
  "kg_sum L example_sheet (\<lambda>r. partner_label L r \<noteq> ''China'') ''Quantity'' = 10"
  "kg_sum L example_sheet (\<lambda>r. partner_label L r \<noteq> ''China'') ''Trade Value 1000USD'' = 5"
  by (simp_all add: example_kg_sum)
     (simp_all add: example_sheet_def partner_label_def py_str_def strip_plain coerce_def
        to_numeric_cell_def cell_value_def)

lemma example_china:
  "kg_sum L example_sheet (\<lambda>r. partner_label L r = ''China'') ''Quantity'' = 100"
  "kg_sum L example_sheet (\<lambda>r. partner_label L r = ''China'') ''Trade Value 1000USD'' = 50"
  by (simp_all add: example_kg_sum)
     (simp_all add: example_sheet_def partner_label_def py_str_def strip_plain coerce_def
        to_numeric_cell_def cell_value_def)

section \<open>Sheets of integers\<close>







section \<open>Properties of the aggregation operations\<close>

lemma result_Inl [simp]: "result (Inl e) = Inl e"
  by (simp add: result_def)

lemma result_Inr [simp]: "result (Inr (h, v)) = Inr v"
  by (simp add: result_def)

text \<open>
  C6: a sheet that lacks one of the four required columns makes both operations fail
  with the error that carries the missing columns and the columns found; a sheet with
  all four columns makes both return.
\<close>

theorem missing_columns_fatal:
  assumes "df < length h"
  shows "set (missing_columns (h ! df)) = set required_columns - set (columns (h ! df)) \<and>
         (missing_columns (h ! df) \<noteq> [] \<longrightarrow>
            get_qty_and_value_sums_for_partners L h df partners =
              Inl (ValueError (missing_columns (h ! df)) (columns (h ! df))) \<and>
            get_rest_of_world_sum L h df ex =
              Inl (ValueError (missing_columns (h ! df)) (columns (h ! df)))) \<and>
         (missing_columns (h ! df) = [] \<longrightarrow>
            (\<exists>h' out. get_qty_and_value_sums_for_partners L h df partners = Inr (h', out)) \<and>
            (\<exists>h' qv. get_rest_of_world_sum L h df ex = Inr (h', qv)))"
  by (auto simp: sums_eq [OF assms] rest_eq [OF assms] missing_columns_def)

theorem missing_columns_fatal_witness:
  "get_qty_and_value_sums_for_partners plain_lib [short_sheet] 0 [''China''] =
     Inl (ValueError [''Quantity Unit''] [''Partner'', ''Quantity'', ''Trade Value 1000USD'']) \<and>
   get_rest_of_world_sum plain_lib [short_sheet] 0 {''China''} =
     Inl (ValueError [''Quantity Unit''] [''Partner'', ''Quantity'', ''Trade Value 1000USD'']) \<and>
   (\<exists>h' out. get_qty_and_value_sums_for_partners plain_lib [example_sheet] 0 [''China''] = Inr (h', out)) \<and>
   (\<exists>h' qv. get_rest_of_world_sum plain_lib [example_sheet] 0 {''China''} = Inr (h', qv))"
proof -
  have len: "0 < length [d]" for d :: dataframe by simp
  have cols: "columns short_sheet = [''Partner'', ''Quantity'', ''Trade Value 1000USD'']"
    by (simp add: short_sheet_def)
  show ?thesis
    using missing_columns_fatal [OF len, of short_sheet plain_lib "[''China'']" "{''China''}"]
      missing_columns_fatal [OF len, of example_sheet plain_lib "[''China'']" "{''China''}"]
    by (simp add: short_missing example_missing cols)
qed

text \<open>
  C10: both operations leave every frame that was in the store before the call as it
  was, the input among them; they only add frames.
\<close>

theorem input_unchanged:
  assumes "df < length h"
  shows "(\<forall>h' out. get_qty_and_value_sums_for_partners L h df partners = Inr (h', out) \<longrightarrow>
            take (length h) h' = h \<and> h' ! df = h ! df) \<and>
         (\<forall>h' qv. get_rest_of_world_sum L h df ex = Inr (h', qv) \<longrightarrow>
            take (length h) h' = h \<and> h' ! df = h ! df)"
  using assms by (auto simp: sums_eq [OF assms] rest_eq [OF assms] nth_append split: if_splits)

theorem input_unchanged_witness:
  "(\<exists>h' out. get_qty_and_value_sums_for_partners plain_lib [example_sheet] 0 [''China''] = Inr (h', out) \<and>
      take 1 h' = [example_sheet] \<and> h' ! 0 = example_sheet) \<and>
   (\<exists>h' qv. get_rest_of_world_sum plain_lib [example_sheet] 0 {''China''} = Inr (h', qv) \<and>
      take 1 h' = [example_sheet] \<and> h' ! 0 = example_sheet)"
proof -
  have len: "0 < length [example_sheet]" by simp
  obtain h1 out where 1: "get_qty_and_value_sums_for_partners plain_lib [example_sheet] 0 [''China''] = Inr (h1, out)"
    by (simp add: sums_eq [OF len] example_missing)
  obtain h2 qv where 2: "get_rest_of_world_sum plain_lib [example_sheet] 0 {''China''} = Inr (h2, qv)"
    by (simp add: rest_eq [OF len] example_missing)
  from input_unchanged [OF len, of plain_lib "[''China'']" "{''China''}"] 1 2
  show ?thesis by simp
qed







section \<open>Rows in other units\<close>

lemma kg_sum_drop_rows:
  assumes "\<forall>r \<in> set (records df). is_kg_row L r \<longrightarrow> keep r"
  shows "kg_sum L (drop_rows keep df) P c = kg_sum L df P c"
proof -
  have "filter (\<lambda>r. is_kg_row L r \<and> P r) (filter keep (records df)) =
        filter (\<lambda>r. is_kg_row L r \<and> P r) (records df)"
    using assms by (auto intro: filter_cong)
  moreover have "filter (is_kg_row L) (filter keep (records df)) =
        filter (is_kg_row L) (records df)"
    using assms by (auto intro: filter_cong)
  ultimately show ?thesis
    by (simp add: kg_sum_def selected_def int_column_def drop_rows_def)
qed

lemma missing_columns_drop_rows: "missing_columns (drop_rows keep df) = missing_columns df"
  by (simp add: missing_columns_def drop_rows_def)

lemma columns_drop_rows: "columns (drop_rows keep df) = columns df"
  by (simp add: drop_rows_def)

lemma result_rest:
  assumes "df < length h"
  shows "result (get_rest_of_world_sum L h df ex) =
         (if missing_columns (h ! df) \<noteq> []
          then Inl (ValueError (missing_columns (h ! df)) (columns (h ! df)))
          else Inr (kg_sum L (h ! df) (\<lambda>r. partner_label L r \<notin> ex) ''Quantity'',
                    kg_sum L (h ! df) (\<lambda>r. partner_label L r \<notin> ex) ''Trade Value 1000USD''))"
  by (simp add: rest_eq [OF assms])

lemma result_sums:
  assumes "df < length h"
  shows "result (get_qty_and_value_sums_for_partners L h df partners) =
         (if missing_columns (h ! df) \<noteq> []
          then Inl (ValueError (missing_columns (h ! df)) (columns (h ! df)))
          else Inr (fold (\<lambda>p out. AList.update p
                            (kg_sum L (h ! df) (\<lambda>r. partner_label L r = p) ''Quantity'',
                             kg_sum L (h ! df) (\<lambda>r. partner_label L r = p) ''Trade Value 1000USD'') out)
                      partners []))"
  by (simp add: sums_eq [OF assms])

lemma results_drop_rows:
  assumes "df < length h" "df' < length h'" "h' ! df' = drop_rows keep (h ! df)"
    and "\<forall>r \<in> set (records (h ! df)). is_kg_row L r \<longrightarrow> keep r"
  shows "result (get_qty_and_value_sums_for_partners L h' df' partners) =
           result (get_qty_and_value_sums_for_partners L h df partners)"
    and "result (get_rest_of_world_sum L h' df' ex) = result (get_rest_of_world_sum L h df ex)"
  by (simp_all add: result_sums result_rest assms(1,2,3) missing_columns_drop_rows
        columns_drop_rows kg_sum_drop_rows [OF assms(4)])

lemma results_same_frame:
  assumes "df < length h" "df' < length h'" "h' ! df' = h ! df"
  shows "result (get_qty_and_value_sums_for_partners L h' df' partners) =
           result (get_qty_and_value_sums_for_partners L h df partners)"
    and "result (get_rest_of_world_sum L h' df' ex) = result (get_rest_of_world_sum L h df ex)"
  by (simp_all add: result_sums result_rest assms)

lemma process_product_results:
  "process_product fetch L reporter_label reporter_code year flow product accs =
     (case fetch reporter_code year flow product of
        Inl e \<Rightarrow> Inl e
      | Inr sheet \<Rightarrow>
          (case result (get_qty_and_value_sums_for_partners L [sheet] 0 PARTNERS) of
             Inl e \<Rightarrow> Inl e
           | Inr partner_sums \<Rightarrow>
               (case result (get_rest_of_world_sum L [sheet] 0 EXCLUDE_FOR_ROW) of
                  Inl e \<Rightarrow> Inl e
                | Inr qv \<Rightarrow>
                    for_loop (add_sums reporter_label year flow)
                      (AList.update ''World'' qv partner_sums) accs)))"
proof (cases "fetch reporter_code year flow product")
  case (Inl e)
  then show ?thesis by (simp add: process_product_def)
next
  case (Inr sheet)
  have len: "0 < length [sheet]" by simp
  show ?thesis
  proof (cases "missing_columns sheet = []")
    case False
    then show ?thesis
      by (simp add: process_product_def Inr alloc_eq sums_eq [OF len] result_sums)
  next
    case True
    have len4: "0 < length [sheet, a, b, c]" for a b c :: dataframe by simp
    show ?thesis
      unfolding process_product_def Inr
      by (simp add: alloc_def sums_eq [OF len] True rest_eq [OF len] rest_eq [OF len4])
  qed
qed

lemma for_loop_cong:
  "(\<And>x s. x \<in> set xs \<Longrightarrow> f x s = g x s) \<Longrightarrow> for_loop f xs s = for_loop g xs s"
  by (induction xs arbitrary: s) (auto split: sum.splits)

lemma process_product_drop_rows:
  assumes "\<forall>r. is_kg_row L r \<longrightarrow> keep r"
  shows "process_product (drop_rows_fetch keep fetch) L rl rc year flow product accs =
         process_product fetch L rl rc year flow product accs"
proof (cases "fetch rc year flow product")
  case (Inl e)
  then show ?thesis by (simp add: process_product_results drop_rows_fetch_def)
next
  case (Inr sheet)
  have kg: "\<forall>r \<in> set (records ([sheet] ! 0)). is_kg_row L r \<longrightarrow> keep r"
    using assms by simp
  have same: "result (get_qty_and_value_sums_for_partners L [drop_rows keep sheet] 0 PARTNERS) =
        result (get_qty_and_value_sums_for_partners L [sheet] 0 PARTNERS)"
    "result (get_rest_of_world_sum L [drop_rows keep sheet] 0 EXCLUDE_FOR_ROW) =
         result (get_rest_of_world_sum L [sheet] 0 EXCLUDE_FOR_ROW)"
    using results_drop_rows [OF _ _ _ kg, where df' = 0 and h' = "[drop_rows keep sheet]"]
    by simp_all
  show ?thesis
    unfolding process_product_results drop_rows_fetch_def Inr sum.case same ..
qed

lemma main_loop_drop_rows:
  assumes "\<forall>r. is_kg_row L r \<longrightarrow> keep r"
  shows "main_loop (drop_rows_fetch keep fetch) L = main_loop fetch L"
proof -
  have "process_product (drop_rows_fetch keep fetch) L = process_product fetch L"
    by (intro ext) (rule process_product_drop_rows [OF assms])
  then show ?thesis by (simp add: main_loop_def)
qed

text \<open>
  C4, amended: a row whose unit, once trimmed of surrounding whitespace, is not
  \<^verbatim>\<open>kg\<close> in any case contributes to no sum. Dropping any such rows from a sheet
  changes the result of neither operation, and dropping them from every downloaded sheet
  changes no accumulator.
\<close>

theorem non_kg_rows_ignored:
  assumes "\<forall>r. is_kg_row L r \<longrightarrow> keep r"
  shows "result (get_qty_and_value_sums_for_partners L [drop_rows keep sheet] 0 partners) =
           result (get_qty_and_value_sums_for_partners L [sheet] 0 partners) \<and>
         result (get_rest_of_world_sum L [drop_rows keep sheet] 0 ex) =
           result (get_rest_of_world_sum L [sheet] 0 ex) \<and>
         main_loop (drop_rows_fetch keep fetch) L = main_loop fetch L"
proof -
  have kg: "\<forall>r \<in> set (records ([sheet] ! 0)). is_kg_row L r \<longrightarrow> keep r"
    using assms by simp
  show ?thesis
    using results_drop_rows [OF _ _ _ kg, where df' = 0 and h' = "[drop_rows keep sheet]"]
      main_loop_drop_rows [OF assms]
    by simp
qed

lemma lower_item: "lower ''Item'' = ''item''"
  by code_simp

lemma strip_item: "strip ''Item'' = ''Item''"
  by (simp add: strip_def py_isspace_def)

lemma drop_mixed: "drop_rows (is_kg_row L) mixed_sheet = example_sheet"
  by (simp add: drop_rows_def mixed_sheet_def example_sheet_def is_kg_row_def unit_label_def
        py_str_def strip_plain strip_item lower_kg lower_item)

theorem non_kg_rows_ignored_witness:
  "drop_rows (is_kg_row plain_lib) mixed_sheet = example_sheet \<and>
   result (get_qty_and_value_sums_for_partners plain_lib [mixed_sheet] 0 [''China'']) =
     Inr [(''China'', 100, 50)] \<and>
   result (get_rest_of_world_sum plain_lib [mixed_sheet] 0 {''China''}) = Inr (10, 5) \<and>
   main_loop (drop_rows_fetch (is_kg_row plain_lib) (\<lambda>code year flow product. Inr mixed_sheet))
       plain_lib =
     main_loop (\<lambda>code year flow product. Inr mixed_sheet) plain_lib"
proof -
  have len: "0 < length [example_sheet]" by simp
  have 1: "result (get_qty_and_value_sums_for_partners plain_lib [example_sheet] 0 [''China'']) =
     Inr [(''China'', 100, 50)]"
    by (simp add: sums_eq [OF len] example_missing example_china)
  have 2: "result (get_rest_of_world_sum plain_lib [example_sheet] 0 {''China''}) = Inr (10, 5)"
    by (simp add: rest_eq [OF len] example_missing example_rest)
  have kg: "\<forall>r. is_kg_row plain_lib r \<longrightarrow> is_kg_row plain_lib r" by simp
  from non_kg_rows_ignored [OF kg, of mixed_sheet "[''China'']" "{''China''}"
      "\<lambda>code year flow product. Inr mixed_sheet"]
  show ?thesis by (simp add: drop_mixed 1 2)
qed

lemma for_loop_sum:
  assumes "for_loop body xs s = Inr s'" "g s = Some v"
    and "\<And>x s s' v. x \<in> set xs \<Longrightarrow> body x s = Inr s' \<Longrightarrow> g s = Some v \<Longrightarrow>
           g s' = Some (v + d x)"
  shows "g s' = Some (v + sum_list (map d xs))"
  using assms
proof (induction xs arbitrary: s v)
  case Nil
  then show ?case by simp
next
  case (Cons x xs)
  from Cons.prems(1) obtain s1 where s1: "body x s = Inr s1" and rest: "for_loop body xs s1 = Inr s'"
    by (auto split: sum.splits)
  have g1: "g s1 = Some (v + d x)"
    using Cons.prems(3) [OF _ s1 Cons.prems(2)] by simp
  have "g s' = Some (v + d x + sum_list (map d xs))"
    using Cons.IH [OF rest g1] Cons.prems(3) by simp
  then show ?case by (simp add: add.assoc)
qed

lemma for_loop_total:
  assumes "I s"
    and "\<And>x s. x \<in> set xs \<Longrightarrow> I s \<Longrightarrow> \<exists>s'. body x s = Inr s' \<and> I s'"
  shows "\<exists>s'. for_loop body xs s = Inr s' \<and> I s'"
  using assms
proof (induction xs arbitrary: s)
  case Nil
  then show ?case by simp
next
  case (Cons x xs)
  from Cons.prems obtain s1 where s1: "body x s = Inr s1" "I s1" by fastforce
  with Cons.IH [of s1] Cons.prems(2) show ?case by simp
qed

section \<open>The main aggregation loop\<close>

lemma acc_add_step:
  assumes "acc_add a k' x = Inr a'" "a k = Some v"
  shows "a' k = Some (v + (if k' = k then x else 0))"
  using assms by (auto simp: acc_add_def split: option.splits)

lemma add_sums_step:
  assumes sel: "sel = fst \<and> pick = fst \<or> sel = snd \<and> pick = snd"
    and run: "add_sums rl y f (p, qv) s = Inr s'"
    and v: "sel s k = Some v"
  shows "sel s' k = Some (v + (if (rl, p, y, f) = k then pick qv else 0))"
proof -
  obtain qa va where s: "s = (qa, va)" by (cases s)
  obtain q w where qv: "qv = (q, w)" by (cases qv)
  from run obtain qa' va' where
    1: "acc_add qa (rl, p, y, f) q = Inr qa'" and 2: "acc_add va (rl, p, y, f) w = Inr va'"
    and s': "s' = (qa', va')"
    by (auto simp: add_sums_def s qv split: sum.splits)
  from sel show ?thesis
  proof
    assume "sel = fst \<and> pick = fst"
    with v acc_add_step [OF 1, of k v] show ?thesis by (simp add: s s' qv)
  next
    assume "sel = snd \<and> pick = snd"
    with v acc_add_step [OF 2, of k v] show ?thesis by (simp add: s s' qv)
  qed
qed

lemma sum_list_key:
  assumes "distinct (map fst al)"
  shows "sum_list (map (\<lambda>(p, qv). if p = p0 then g qv else (0::real)) al) =
         (case map_of al p0 of Some qv \<Rightarrow> g qv | None \<Rightarrow> 0)"
  using assms
proof (induction al)
  case Nil
  then show ?case by simp
next
  case (Cons a al)
  obtain p qv where a: "a = (p, qv)" by (cases a)
  show ?case
  proof (cases "p = p0")
    case True
    with Cons.prems a have "map_of al p0 = None"
      by (auto simp: map_of_eq_None_iff)
    with Cons True a show ?thesis by simp
  next
    case False
    with Cons a show ?thesis by simp
  qed
qed

lemma sums_keys_distinct:
  assumes "result (get_qty_and_value_sums_for_partners L [sheet] 0 partners) = Inr out"
  shows "distinct (map fst out)" "fst ` set out = set partners"
proof -
  have len: "0 < length [sheet]" by simp
  from assms have out: "out = fold (\<lambda>p out. AList.update p
                            (kg_sum L sheet (\<lambda>r. partner_label L r = p) ''Quantity'',
                             kg_sum L sheet (\<lambda>r. partner_label L r = p) ''Trade Value 1000USD'') out)
                      partners []"
    by (simp add: result_sums [OF len] split: if_splits)
  show "distinct (map fst out)" unfolding out by (rule fold_update_distinct) simp
  show "fst ` set out = set partners" unfolding out by (simp add: fold_update_keys)
qed

lemma process_product_step:
  assumes sel: "sel = fst \<and> pick = fst \<or> sel = snd \<and> pick = snd"
    and run: "process_product fetch L rl rc y f product s = Inr s'"
    and v: "sel s (r0, p0, y0, f0) = Some v"
  shows "sel s' (r0, p0, y0, f0) =
           Some (v + (if rl = r0 then if y = y0 then if f = f0
                      then pick (contribution L (fetched fetch rc y f product) p0)
                      else 0 else 0 else 0))"
proof -
  from run obtain sheet out qv where
    sheet: "fetch rc y f product = Inr sheet"
    and out: "result (get_qty_and_value_sums_for_partners L [sheet] 0 PARTNERS) = Inr out"
    and qv: "result (get_rest_of_world_sum L [sheet] 0 EXCLUDE_FOR_ROW) = Inr qv"
    and loop: "for_loop (add_sums rl y f) (AList.update ''World'' qv out) s = Inr s'"
    by (auto simp: process_product_results split: sum.splits)
  define al where "al = AList.update ''World'' qv out"
  have dist: "distinct (map fst al)"
    unfolding al_def by (rule distinct_update) (rule sums_keys_distinct(1) [OF out])
  have lookup: "map_of al p0 = (if p0 = ''World'' then Some qv else map_of out p0)"
    by (simp add: al_def update_conv')
  have contrib: "(case map_of al p0 of Some qv \<Rightarrow> pick qv | None \<Rightarrow> 0) =
                 pick (contribution L sheet p0)"
    using sel by (auto simp: lookup contribution_def out qv split: option.splits)
  have step: "sel s2 (r0, p0, y0, f0) =
                Some (w + (case x of (p, qv) \<Rightarrow>
                   if rl = r0 \<and> y = y0 \<and> f = f0 then (if p = p0 then pick qv else 0) else 0))"
    if "add_sums rl y f x s1 = Inr s2" "sel s1 (r0, p0, y0, f0) = Some w" for x s1 s2 w
  proof -
    obtain p qv' where x: "x = (p, qv')" by (cases x)
    from add_sums_step [OF sel that(1) [unfolded x] that(2)]
    show ?thesis by (auto simp: x)
  qed
  have "sel s' (r0, p0, y0, f0) =
          Some (v + sum_list (map (\<lambda>(p, qv).
                   if rl = r0 \<and> y = y0 \<and> f = f0 then (if p = p0 then pick qv else 0) else 0) al))"
    using for_loop_sum [where g = "\<lambda>s. sel s (r0, p0, y0, f0)" and d = "\<lambda>(p, qv).
                   if rl = r0 \<and> y = y0 \<and> f = f0 then (if p = p0 then pick qv else 0) else 0",
                   OF loop [folded al_def] v] step
    by blast
  also have "sum_list (map (\<lambda>(p, qv).
                   if rl = r0 \<and> y = y0 \<and> f = f0 then (if p = p0 then pick qv else 0) else 0) al) =
             (if rl = r0 \<and> y = y0 \<and> f = f0 then pick (contribution L sheet p0) else 0)"
    using sum_list_key [OF dist, of p0 pick] contrib by (auto simp: case_prod_unfold)
  finally have "sel s' (r0, p0, y0, f0) =
      Some (v + (if rl = r0 \<and> y = y0 \<and> f = f0 then pick (contribution L sheet p0) else 0))" .
  moreover have "fetched fetch rc y f product = sheet"
    by (simp add: fetched_def sheet)
  ultimately show ?thesis by auto
qed

lemma sum_list_if_const:
  "sum_list (map (\<lambda>x. if P then g x else (0::real)) xs) = (if P then sum_list (map g xs) else 0)"
  by (induction xs) auto

lemma sum_list_indicator:
  "distinct xs \<Longrightarrow> a \<in> set xs \<Longrightarrow>
   sum_list (map (\<lambda>x. if x = a then g x else (0::real)) xs) = g a"
proof (induction xs)
  case Nil
  then show ?case by simp
next
  case (Cons x xs)
  show ?case
  proof (cases "x = a")
    case True
    with Cons.prems have "a \<notin> set xs" by simp
    then have "sum_list (map (\<lambda>x. if x = a then g x else 0) xs) = 0"
      by (induction xs) auto
    with True show ?thesis by simp
  next
    case False
    with Cons show ?thesis by simp
  qed
qed

lemma sum_list_indicator_fst:
  "distinct (map fst al) \<Longrightarrow> (a, b) \<in> set al \<Longrightarrow>
   sum_list (map (\<lambda>(x, y). if x = a then g y else (0::real)) al) = g b"
proof (induction al)
  case Nil
  then show ?case by simp
next
  case (Cons e al)
  obtain x y where e: "e = (x, y)" by (cases e)
  show ?case
  proof (cases "x = a")
    case True
    with Cons.prems e have notin: "a \<notin> fst ` set al" and b: "y = b"
      by (auto simp: image_iff)
    from notin have "sum_list (map (\<lambda>(x, y). if x = a then g y else 0) al) = 0"
      by (induction al) auto
    with True e b show ?thesis by simp
  next
    case False
    with Cons e show ?thesis by auto
  qed
qed

lemma config_distinct:
  "distinct (map fst REPORTERS)" "distinct YEARS" "distinct FLOWS" "distinct PARTNERS"
  by (simp_all add: REPORTERS_def YEARS_def FLOWS_def PARTNERS_def BASE_PARTNERS_def)

lemma products_loop:
  assumes sel: "sel = fst \<and> pick = fst \<or> sel = snd \<and> pick = snd"
    and run: "for_loop (process_product fetch L rl rc y f) PRODUCTS s = Inr s'"
    and v: "sel s (r0, p0, y0, f0) = Some v"
  shows "sel s' (r0, p0, y0, f0) =
           Some (v + (if rl = r0 then if y = y0 then if f = f0
                      then product_total pick fetch L rc p0 y f else 0 else 0 else 0))"
proof -
  have "sel s' (r0, p0, y0, f0) =
          Some (v + sum_list (map (\<lambda>product. if rl = r0 then if y = y0 then if f = f0
                      then pick (contribution L (fetched fetch rc y f product) p0)
                      else 0 else 0 else 0) PRODUCTS))"
    by (rule for_loop_sum [where g = "\<lambda>s. sel s (r0, p0, y0, f0)", OF run v])
       (rule process_product_step [OF sel])
  then show ?thesis by (simp add: sum_list_if_const product_total_def)
qed

lemma flows_loop:
  assumes sel: "sel = fst \<and> pick = fst \<or> sel = snd \<and> pick = snd"
    and run: "for_loop (\<lambda>flow. for_loop (process_product fetch L rl rc y flow) PRODUCTS) FLOWS s = Inr s'"
    and v: "sel s (r0, p0, y0, f0) = Some v"
    and f0: "f0 \<in> set FLOWS"
  shows "sel s' (r0, p0, y0, f0) =
           Some (v + (if rl = r0 then if y = y0
                      then product_total pick fetch L rc p0 y f0 else 0 else 0))"
proof -
  have "sel s' (r0, p0, y0, f0) =
          Some (v + sum_list (map (\<lambda>f. if rl = r0 then if y = y0 then if f = f0
                      then product_total pick fetch L rc p0 y f else 0 else 0 else 0) FLOWS))"
    by (rule for_loop_sum [where g = "\<lambda>s. sel s (r0, p0, y0, f0)", OF run v])
       (rule products_loop [OF sel])
  then show ?thesis
    by (simp add: sum_list_if_const sum_list_indicator [OF config_distinct(3) f0])
qed

lemma years_loop:
  assumes sel: "sel = fst \<and> pick = fst \<or> sel = snd \<and> pick = snd"
    and run: "for_loop (\<lambda>year. for_loop (\<lambda>flow.
                 for_loop (process_product fetch L rl rc year flow) PRODUCTS) FLOWS) YEARS s = Inr s'"
    and v: "sel s (r0, p0, y0, f0) = Some v"
    and f0: "f0 \<in> set FLOWS" and y0: "y0 \<in> set YEARS"
  shows "sel s' (r0, p0, y0, f0) =
           Some (v + (if rl = r0 then product_total pick fetch L rc p0 y0 f0 else 0))"
proof -
  have "sel s' (r0, p0, y0, f0) =
          Some (v + sum_list (map (\<lambda>y. if rl = r0 then if y = y0
                      then product_total pick fetch L rc p0 y f0 else 0 else 0) YEARS))"
    by (rule for_loop_sum [where g = "\<lambda>s. sel s (r0, p0, y0, f0)", OF run v])
       (rule flows_loop [OF sel _ _ f0])
  then show ?thesis
    by (simp add: sum_list_if_const sum_list_indicator [OF config_distinct(2) y0])
qed

lemma reporters_loop:
  assumes sel: "sel = fst \<and> pick = fst \<or> sel = snd \<and> pick = snd"
    and run: "for_loop (\<lambda>(rl, rc). for_loop (\<lambda>year. for_loop (\<lambda>flow.
                 for_loop (process_product fetch L rl rc year flow) PRODUCTS) FLOWS) YEARS)
               REPORTERS s = Inr s'"
    and v: "sel s (r0, p0, y0, f0) = Some v"
    and f0: "f0 \<in> set FLOWS" and y0: "y0 \<in> set YEARS" and r0: "(r0, c0) \<in> set REPORTERS"
  shows "sel s' (r0, p0, y0, f0) = Some (v + product_total pick fetch L c0 p0 y0 f0)"
proof -
  have step: "sel s2 (r0, p0, y0, f0) =
                Some (w + (case x of (rl, rc) \<Rightarrow>
                   if rl = r0 then product_total pick fetch L rc p0 y0 f0 else 0))"
    if "(case x of (rl, rc) \<Rightarrow> for_loop (\<lambda>year. for_loop (\<lambda>flow.
                 for_loop (process_product fetch L rl rc year flow) PRODUCTS) FLOWS) YEARS) s1 = Inr s2"
      "sel s1 (r0, p0, y0, f0) = Some w" for x s1 s2 w
  proof -
    obtain rl rc where x: "x = (rl, rc)" by (cases x)
    from years_loop [OF sel that(1) [unfolded x prod.case] that(2) f0 y0]
    show ?thesis by (simp add: x)
  qed
  have "sel s' (r0, p0, y0, f0) =
          Some (v + sum_list (map (\<lambda>(rl, rc). if rl = r0
                      then product_total pick fetch L rc p0 y0 f0 else 0) REPORTERS))"
    by (rule for_loop_sum [where g = "\<lambda>s. sel s (r0, p0, y0, f0)", OF run v]) (rule step)
  then show ?thesis
    by (simp add: sum_list_indicator_fst [OF config_distinct(1) r0])
qed

lemma acc0_keys:
  "[((reporter, partner, year, flow), 0::real).
      reporter \<leftarrow> map fst REPORTERS, partner \<leftarrow> PARTNERS, year \<leftarrow> YEARS, flow \<leftarrow> FLOWS] =
   map (\<lambda>k. (k, 0))
     [(reporter, partner, year, flow).
        reporter \<leftarrow> map fst REPORTERS, partner \<leftarrow> PARTNERS, year \<leftarrow> YEARS, flow \<leftarrow> FLOWS]"
  by (simp add: map_concat o_def)

lemma configured_keys_list:
  "set [(reporter, partner, year, flow).
        reporter \<leftarrow> map fst REPORTERS, partner \<leftarrow> PARTNERS, year \<leftarrow> YEARS, flow \<leftarrow> FLOWS] =
   configured_keys"
  by (auto simp: configured_keys_def)

lemma acc0_lookup:
  "qty_acc0 k = (if k \<in> configured_keys then Some 0 else None)"
  "val1000_acc0 k = (if k \<in> configured_keys then Some 0 else None)"
proof -
  have gen: "map_of (map (\<lambda>k. (k, 0::real)) ks) k = (if k \<in> set ks then Some 0 else None)"
    for ks :: "key list"
    by (simp add: map_of_map_restrict restrict_map_def)
  show "qty_acc0 k = (if k \<in> configured_keys then Some 0 else None)"
    unfolding qty_acc0_def acc0_keys configured_keys_list [symmetric] by (rule gen)
  show "val1000_acc0 k = (if k \<in> configured_keys then Some 0 else None)"
    unfolding val1000_acc0_def acc0_keys configured_keys_list [symmetric] by (rule gen)
qed

lemma add_sums_total:
  assumes "(rl, p, y, f) \<in> configured_keys" "all_keys_present s"
  shows "\<exists>s'. add_sums rl y f (p, qv) s = Inr s' \<and> all_keys_present s'"
proof -
  obtain qa va where s: "s = (qa, va)" by (cases s)
  obtain q w where qv: "qv = (q, w)" by (cases qv)
  from assms obtain a b where a: "qa (rl, p, y, f) = Some a" and b: "va (rl, p, y, f) = Some b"
    by (auto simp: all_keys_present_def s)
  have "add_sums rl y f (p, qv) s =
          Inr (qa((rl, p, y, f) \<mapsto> a + q), va((rl, p, y, f) \<mapsto> b + w))"
    by (simp add: add_sums_def s qv acc_add_def a b)
  moreover have "all_keys_present (qa((rl, p, y, f) \<mapsto> a + q), va((rl, p, y, f) \<mapsto> b + w))"
    using assms(2) by (simp add: all_keys_present_def s)
  ultimately show ?thesis by simp
qed

lemma process_product_total:
  assumes keys: "rl \<in> fst ` set REPORTERS" "y \<in> set YEARS" "f \<in> set FLOWS"
    and sheet: "fetch rc y f product = Inr sheet" "missing_columns sheet = []"
    and inv: "all_keys_present s"
  shows "\<exists>s'. process_product fetch L rl rc y f product s = Inr s' \<and> all_keys_present s'"
proof -
  have len: "0 < length [sheet]" by simp
  obtain out where out: "result (get_qty_and_value_sums_for_partners L [sheet] 0 PARTNERS) = Inr out"
    by (simp add: result_sums [OF len] sheet(2))
  obtain qv where qv: "result (get_rest_of_world_sum L [sheet] 0 EXCLUDE_FOR_ROW) = Inr qv"
    by (simp add: result_rest [OF len] sheet(2))
  have world: "''World'' \<in> set PARTNERS" by (simp add: PARTNERS_def)
  have dom: "fst ` set (AList.update ''World'' qv out) = set PARTNERS"
    using world by (auto simp: dom_update sums_keys_distinct(2) [OF out])
  have step: "\<exists>s'. add_sums rl y f x s = Inr s' \<and> all_keys_present s'"
    if "x \<in> set (AList.update ''World'' qv out)" "all_keys_present s" for x s
  proof -
    obtain p e where x: "x = (p, e)" by (cases x)
    with that(1) dom have "p \<in> set PARTNERS" by force
    with keys have "(rl, p, y, f) \<in> configured_keys" by (simp add: configured_keys_def)
    from add_sums_total [OF this that(2)] show ?thesis by (simp add: x)
  qed
  have "\<exists>s'. for_loop (add_sums rl y f) (AList.update ''World'' qv out) s = Inr s' \<and>
          all_keys_present s'"
    by (rule for_loop_total [where I = all_keys_present, OF inv]) (rule step)
  then show ?thesis by (simp add: process_product_results sheet(1) out qv)
qed

lemma main_loop_total:
  assumes "all_sheets_good fetch"
  shows "\<exists>s'. main_loop fetch L = Inr s' \<and> all_keys_present s'"
  unfolding main_loop_def
proof (rule for_loop_total [where I = all_keys_present])
  show "all_keys_present (qty_acc0, val1000_acc0)"
    by (simp add: all_keys_present_def acc0_lookup)
next
  fix x s assume x: "x \<in> set REPORTERS" and s: "all_keys_present s"
  obtain rl rc where xr: "x = (rl, rc)" by (cases x)
  from x xr have rl: "rl \<in> fst ` set REPORTERS" and rc: "rc \<in> snd ` set REPORTERS"
    by force+
  have "\<exists>s'. for_loop (\<lambda>year. for_loop (\<lambda>flow. for_loop (\<lambda>product.
                 process_product fetch L rl rc year flow product) PRODUCTS) FLOWS) YEARS s = Inr s' \<and>
             all_keys_present s'"
  proof (rule for_loop_total [where I = all_keys_present, OF s])
    fix y s assume y: "y \<in> set YEARS" and s: "all_keys_present s"
    show "\<exists>s'. for_loop (\<lambda>flow. for_loop (\<lambda>product.
                 process_product fetch L rl rc y flow product) PRODUCTS) FLOWS s = Inr s' \<and>
             all_keys_present s'"
    proof (rule for_loop_total [where I = all_keys_present, OF s])
      fix f s assume f: "f \<in> set FLOWS" and s: "all_keys_present s"
      show "\<exists>s'. for_loop (\<lambda>product. process_product fetch L rl rc y f product) PRODUCTS s = Inr s' \<and>
             all_keys_present s'"
      proof (rule for_loop_total [where I = all_keys_present, OF s])
        fix p s assume p: "p \<in> set PRODUCTS" and s: "all_keys_present s"
        from assms rc y f p obtain sheet where
          "fetch rc y f p = Inr sheet" "missing_columns sheet = []"
          unfolding all_sheets_good_def by blast
        from process_product_total [where fetch = fetch and rc = rc and product = p, OF rl y f this s]
        show "\<exists>s'. process_product fetch L rl rc y f p s = Inr s' \<and> all_keys_present s'" .
      qed
    qed
  qed
  then show "\<exists>s'. (case x of (reporter_label, reporter_code) \<Rightarrow>
                for_loop (\<lambda>year. for_loop (\<lambda>flow. for_loop (\<lambda>product.
                  process_product fetch L reporter_label reporter_code year flow product)
                  PRODUCTS) FLOWS) YEARS) s = Inr s' \<and> all_keys_present s'"
    by (simp add: xr)
qed

lemma main_loop_value:
  assumes sel: "sel = fst \<and> pick = fst \<or> sel = snd \<and> pick = snd"
    and run: "main_loop fetch L = Inr s'"
    and key: "(r0, c0) \<in> set REPORTERS" "p0 \<in> set PARTNERS" "y0 \<in> set YEARS" "f0 \<in> set FLOWS"
  shows "sel s' (r0, p0, y0, f0) = Some (product_total pick fetch L c0 p0 y0 f0)"
proof -
  from key have "(r0, p0, y0, f0) \<in> configured_keys"
    by (force simp: configured_keys_def)
  with sel have v: "sel (qty_acc0, val1000_acc0) (r0, p0, y0, f0) = Some 0"
    by (auto simp: acc0_lookup)
  from reporters_loop [OF sel run [unfolded main_loop_def] v key(4) key(3) key(1)]
  show ?thesis by simp
qed

text \<open>
  C5: after the main loop, the accumulator entry of every configured key is the sum,
  over the nine products, of what the sheet of that reporter, year, flow and product
  contributes to the partner of the key; the accumulators start at zero on exactly the
  configured keys, and the loop returns when every sheet is downloaded and has the
  required columns.
\<close>

theorem accumulators_additive:
  "(main_loop fetch L = Inr (qty_acc, val1000_acc) \<and> (reporter, code) \<in> set REPORTERS \<and>
    partner \<in> set PARTNERS \<and> year \<in> set YEARS \<and> flow \<in> set FLOWS \<longrightarrow>
      qty_acc (reporter, partner, year, flow) =
        Some (sum_list (map (\<lambda>product.
                 fst (contribution L (fetched fetch code year flow product) partner)) PRODUCTS)) \<and>
      val1000_acc (reporter, partner, year, flow) =
        Some (sum_list (map (\<lambda>product.
                 snd (contribution L (fetched fetch code year flow product) partner)) PRODUCTS))) \<and>
   (all_sheets_good fetch \<longrightarrow>
      (\<exists>qty_acc val1000_acc. main_loop fetch L = Inr (qty_acc, val1000_acc))) \<and>
   qty_acc0 k = (if k \<in> configured_keys then Some 0 else None) \<and>
   val1000_acc0 k = (if k \<in> configured_keys then Some 0 else None)"
proof -
  have "qty_acc (reporter, partner, year, flow) =
          Some (product_total fst fetch L code partner year flow) \<and>
        val1000_acc (reporter, partner, year, flow) =
          Some (product_total snd fetch L code partner year flow)"
    if run: "main_loop fetch L = Inr (qty_acc, val1000_acc)"
      and key: "(reporter, code) \<in> set REPORTERS" "partner \<in> set PARTNERS"
        "year \<in> set YEARS" "flow \<in> set FLOWS"
    using main_loop_value [where sel = fst and pick = fst, OF _ run key]
      main_loop_value [where sel = snd and pick = snd, OF _ run key]
    by simp
  moreover have "\<exists>qty_acc val1000_acc. main_loop fetch L = Inr (qty_acc, val1000_acc)"
    if "all_sheets_good fetch"
    using main_loop_total [OF that, of L] by auto
  ultimately show ?thesis
    by (simp add: acc0_lookup product_total_def)
qed

lemma contribution_example:
  "contribution L example_sheet ''China'' = (100, 50)"
  "contribution L example_sheet ''World'' = (10, 5)"
proof -
  have len: "0 < length [example_sheet]" by simp
  have china: "''China'' \<in> set PARTNERS"
    by (simp add: PARTNERS_def BASE_PARTNERS_def)
  show "contribution L example_sheet ''China'' = (100, 50)"
    by (simp add: contribution_def result_sums [OF len] example_missing fold_update_map_of
          china example_china)
  have world: "kg_sum L example_sheet (\<lambda>r. partner_label L r \<notin> EXCLUDE_FOR_ROW) ''Quantity'' = 10"
    "kg_sum L example_sheet (\<lambda>r. partner_label L r \<notin> EXCLUDE_FOR_ROW) ''Trade Value 1000USD'' = 5"
    by (simp_all add: example_kg_sum)
       (simp_all add: example_sheet_def partner_label_def py_str_def strip_plain coerce_def
          to_numeric_cell_def cell_value_def EXCLUDE_FOR_ROW_def BASE_PARTNERS_def
          EU_COUNTRIES_def REGION_LABEL_EU_def)
  show "contribution L example_sheet ''World'' = (10, 5)"
    by (simp add: contribution_def result_rest [OF len] example_missing world)
qed

theorem accumulators_additive_witness:
  "\<exists>qty_acc val1000_acc.
     main_loop example_fetch plain_lib = Inr (qty_acc, val1000_acc) \<and>
     qty_acc (''United States'', ''China'', 2024, ''E'') = Some 900 \<and>
     val1000_acc (''United States'', ''China'', 2024, ''E'') = Some 450 \<and>
     qty_acc (''United States'', ''World'', 2024, ''E'') = Some 90 \<and>
     val1000_acc (''United States'', ''World'', 2024, ''E'') = Some 45"
proof -
  have good: "all_sheets_good example_fetch"
    by (simp add: all_sheets_good_def example_fetch_def example_missing)
  have fetched: "fetched example_fetch code year flow product = example_sheet"
    for code year flow product
    by (simp add: fetched_def example_fetch_def)
  have key: "(''United States'', ''USA'') \<in> set REPORTERS" "''China'' \<in> set PARTNERS"
    "''World'' \<in> set PARTNERS" "2024 \<in> set YEARS" "''E'' \<in> set FLOWS"
    by (simp_all add: REPORTERS_def PARTNERS_def BASE_PARTNERS_def YEARS_def FLOWS_def)
  from accumulators_additive [of example_fetch plain_lib] good
  obtain qa va where run: "main_loop example_fetch plain_lib = Inr (qa, va)"
    by blast
  from accumulators_additive [of example_fetch plain_lib qa va "''United States''" "''USA''"
      "''China''" 2024 "''E''"] run key
  have china: "qa (''United States'', ''China'', 2024, ''E'') = Some 900"
    "va (''United States'', ''China'', 2024, ''E'') = Some 450"
    by (simp_all add: fetched contribution_example PRODUCTS_def)
  from accumulators_additive [of example_fetch plain_lib qa va "''United States''" "''USA''"
      "''World''" 2024 "''E''"] run key
  have world: "qa (''United States'', ''World'', 2024, ''E'') = Some 90"
    "va (''United States'', ''World'', 2024, ''E'') = Some 45"
    by (simp_all add: fetched contribution_example PRODUCTS_def)
  from run china world show ?thesis by blast
qed

section \<open>The table builder\<close>

lemma primary_row_eq:
  assumes "qa (rl, p, y, f) = Some q" "va (rl, p, y, f) = Some v"
  shows "primary_row qa va rl p y f rows = Inr (rows @ [primary_of qa va rl p y f])"
  using assms
  by (simp add: primary_row_def acc_get_def primary_of_def emitted_row_def Let_def
      split: option.splits)

lemma mirrored_row_eq:
  assumes "qa (REGION_LABEL_EU, rl, y, inverse_flow f) = Some q"
    "va (REGION_LABEL_EU, rl, y, inverse_flow f) = Some v"
  shows "mirrored_row qa va rl y f rows = Inr (rows @ [mirrored_of qa va rl y f])"
  using assms
  by (simp add: mirrored_row_def acc_get_def mirrored_of_def emitted_row_def Let_def
      split: option.splits)

lemma for_loop_append:
  assumes "\<And>x rows. x \<in> set xs \<Longrightarrow> body x rows = Inr (rows @ g x)"
  shows "for_loop body xs rows = Inr (rows @ concat (map g xs))"
  using assms by (induction xs arbitrary: rows) auto

lemma mirror_keys:
  assumes "rl \<in> fst ` set REPORTERS" "rl \<noteq> REGION_LABEL_EU" "y \<in> set YEARS" "f \<in> set FLOWS"
  shows "(REGION_LABEL_EU, rl, y, inverse_flow f) \<in> configured_keys"
  using assms
  by (auto simp: configured_keys_def REPORTERS_def PARTNERS_def BASE_PARTNERS_def FLOWS_def
      inverse_flow_def REGION_LABEL_EU_def)

lemma mirrored_rows_eq:
  assumes "all_keys_present (qa, va)"
  shows "mirrored_rows qa va rows = Inr (rows @ mirrored_list qa va)"
  unfolding mirrored_rows_def mirrored_list_def
proof (rule for_loop_append)
  fix rl rows assume rl: "rl \<in> set (map fst REPORTERS)"
  show "(if rl = REGION_LABEL_EU then Inr rows
         else for_loop (\<lambda>year. for_loop (\<lambda>flow. mirrored_row qa va rl year flow) FLOWS) YEARS rows) =
        Inr (rows @ (if rl = REGION_LABEL_EU then []
                     else concat (map (\<lambda>y. map (mirrored_of qa va rl y) FLOWS) YEARS)))"
  proof (cases "rl = REGION_LABEL_EU")
    case True
    then show ?thesis by simp
  next
    case False
    have "for_loop (\<lambda>year. for_loop (\<lambda>flow. mirrored_row qa va rl year flow) FLOWS) YEARS rows =
          Inr (rows @ concat (map (\<lambda>y. map (mirrored_of qa va rl y) FLOWS) YEARS))"
    proof (rule for_loop_append)
      fix y rows assume y: "y \<in> set YEARS"
      have "for_loop (\<lambda>flow. mirrored_row qa va rl y flow) FLOWS rows =
            Inr (rows @ concat (map (\<lambda>f. [mirrored_of qa va rl y f]) FLOWS))"
      proof (rule for_loop_append)
        fix f rows assume f: "f \<in> set FLOWS"
        from mirror_keys [OF _ False y f] rl assms
        obtain q v where "qa (REGION_LABEL_EU, rl, y, inverse_flow f) = Some q"
          "va (REGION_LABEL_EU, rl, y, inverse_flow f) = Some v"
          by (fastforce simp: all_keys_present_def)
        then show "mirrored_row qa va rl y f rows = Inr (rows @ [mirrored_of qa va rl y f])"
          by (rule mirrored_row_eq)
      qed
      then show "for_loop (\<lambda>flow. mirrored_row qa va rl y flow) FLOWS rows =
            Inr (rows @ map (mirrored_of qa va rl y) FLOWS)"
        by (simp add: concat_map_singleton)
    qed
    with False show ?thesis by simp
  qed
qed

lemma primary_rows_eq:
  assumes "all_keys_present (qa, va)"
  shows "primary_rows qa va rows = Inr (rows @ primary_list qa va)"
  unfolding primary_rows_def primary_list_def
proof (rule for_loop_append)
  fix rl rows assume rl: "rl \<in> set (map fst REPORTERS)"
  show "for_loop (\<lambda>partner. for_loop (\<lambda>year. for_loop (\<lambda>flow.
            primary_row qa va rl partner year flow) FLOWS) YEARS) PARTNERS rows =
        Inr (rows @ concat (map (\<lambda>p. concat (map (\<lambda>y. map (primary_of qa va rl p y) FLOWS) YEARS))
                             PARTNERS))"
  proof (rule for_loop_append)
    fix p rows assume p: "p \<in> set PARTNERS"
    show "for_loop (\<lambda>year. for_loop (\<lambda>flow. primary_row qa va rl p year flow) FLOWS) YEARS rows =
          Inr (rows @ concat (map (\<lambda>y. map (primary_of qa va rl p y) FLOWS) YEARS))"
    proof (rule for_loop_append)
      fix y rows assume y: "y \<in> set YEARS"
      have "for_loop (\<lambda>flow. primary_row qa va rl p y flow) FLOWS rows =
            Inr (rows @ concat (map (\<lambda>f. [primary_of qa va rl p y f]) FLOWS))"
      proof (rule for_loop_append)
        fix f rows assume f: "f \<in> set FLOWS"
        from rl p y f have "(rl, p, y, f) \<in> configured_keys"
          by (simp add: configured_keys_def)
        with assms obtain q v where "qa (rl, p, y, f) = Some q" "va (rl, p, y, f) = Some v"
          by (fastforce simp: all_keys_present_def)
        then show "primary_row qa va rl p y f rows = Inr (rows @ [primary_of qa va rl p y f])"
          by (rule primary_row_eq)
      qed
      then show "for_loop (\<lambda>flow. primary_row qa va rl p y flow) FLOWS rows =
            Inr (rows @ map (primary_of qa va rl p y) FLOWS)"
        by (simp add: concat_map_singleton)
    qed
  qed
qed

lemma build_table_eq:
  assumes "all_keys_present (qa, va)"
  shows "build_table qa va = Inr (post_process (primary_list qa va @ mirrored_list qa va))"
  by (simp add: build_table_def primary_rows_eq [OF assms] mirrored_rows_eq [OF assms])

lemma concat_indicator:
  "distinct xs \<Longrightarrow> a \<in> set xs \<Longrightarrow> concat (map (\<lambda>x. if x = a then l else []) xs) = l"
proof (induction xs)
  case Nil
  then show ?case by simp
next
  case (Cons x xs)
  show ?case
  proof (cases "x = a")
    case True
    with Cons.prems have "a \<notin> set xs" by simp
    then have "concat (map (\<lambda>x. if x = a then l else []) xs) = []"
      by (induction xs) auto
    with True show ?thesis by simp
  next
    case False
    with Cons show ?thesis by simp
  qed
qed

lemma mirrored_of_fields:
  "Reporter (mirrored_of qa va rl y f) = rl"
  "Partner (mirrored_of qa va rl y f) = REGION_LABEL_EU"
  "Tradeflow (mirrored_of qa va rl y f) = flow_label f"
  "Year (mirrored_of qa va rl y f) = y"
  "Quantity_in_kg (mirrored_of qa va rl y f) = the (qa (REGION_LABEL_EU, rl, y, inverse_flow f))"
  "Trade_Value_USD (mirrored_of qa va rl y f) =
     the (va (REGION_LABEL_EU, rl, y, inverse_flow f)) * 1000"
  by (simp_all add: mirrored_of_def emitted_row_def)

lemma filter_mirrored_flows:
  assumes "F \<in> set FLOWS"
  shows "filter (\<lambda>row. Reporter row = R \<and> Year row = Y \<and> Tradeflow row = flow_label F)
           (map (mirrored_of qa va rl y) FLOWS) =
         (if y = Y then if rl = R then [mirrored_of qa va R Y F] else [] else [])"
  using assms by (auto simp: FLOWS_def mirrored_of_fields flow_label_def)

lemma filter_mirrored_list:
  assumes "R \<in> fst ` set REPORTERS" "R \<noteq> REGION_LABEL_EU" "Y \<in> set YEARS" "F \<in> set FLOWS"
  shows "filter (\<lambda>row. Reporter row = R \<and> Year row = Y \<and> Tradeflow row = flow_label F)
           (mirrored_list qa va) = [mirrored_of qa va R Y F]"
proof -
  let ?P = "\<lambda>row. Reporter row = R \<and> Year row = Y \<and> Tradeflow row = flow_label F"
  let ?m = "mirrored_of qa va R Y F"
  have years: "filter ?P (concat (map (\<lambda>y. map (mirrored_of qa va rl y) FLOWS) YEARS)) =
               (if rl = R then [?m] else [])" for rl
  proof -
    have "filter ?P (concat (map (\<lambda>y. map (mirrored_of qa va rl y) FLOWS) YEARS)) =
          concat (map (\<lambda>y. if y = Y then (if rl = R then [?m] else []) else []) YEARS)"
      by (simp add: filter_concat o_def filter_mirrored_flows [OF assms(4)])
    then show ?thesis
      by (simp only: concat_indicator [OF config_distinct(2) assms(3)])
  qed
  have "filter ?P (mirrored_list qa va) =
        concat (map (\<lambda>rl. if rl = R then [?m] else []) (map fst REPORTERS))"
    unfolding mirrored_list_def filter_concat map_map o_def
    by (rule arg_cong [where f = concat], rule map_cong [OF refl])
       (simp add: years assms(2))
  also have "\<dots> = [?m]"
    using assms(1) by (simp only: concat_indicator [OF config_distinct(1)] set_map)
  finally show ?thesis .
qed

lemma mirrored_list_rows:
  assumes "row \<in> set (mirrored_list qa va)"
  shows "Reporter row \<in> fst ` set REPORTERS \<and> Reporter row \<noteq> REGION_LABEL_EU \<and>
         Partner row = REGION_LABEL_EU"
  using assms by (force simp: mirrored_list_def mirrored_of_fields split: if_splits)

text \<open>
  C1: when the accumulators hold every configured key, part (2) appends, for every
  reporter R other than the European Union, year Y and flow F, exactly one row with
  reporter R, year Y and the label of F; its partner is the European Union and its
  quantity and value are the accumulators' entries for the European Union as reporter,
  R as partner, year Y and the inverse flow (the value times 1000, in USD). No appended
  row has the European Union as reporter.
\<close>

theorem mirrored_rows_correct:
  assumes "all_keys_present (qty_acc, val1000_acc)"
  shows "\<exists>mirrored.
           mirrored_rows qty_acc val1000_acc rows = Inr (rows @ mirrored) \<and>
           (\<forall>row \<in> set mirrored.
              Reporter row \<noteq> REGION_LABEL_EU \<and> Partner row = REGION_LABEL_EU) \<and>
           (\<forall>R Y F. R \<in> fst ` set REPORTERS \<and> R \<noteq> REGION_LABEL_EU \<and> Y \<in> set YEARS \<and>
                    F \<in> set FLOWS \<longrightarrow>
              (\<exists>row q v.
                 filter (\<lambda>row. Reporter row = R \<and> Year row = Y \<and> Tradeflow row = flow_label F)
                   mirrored = [row] \<and>
                 Reporter row = R \<and> Partner row = REGION_LABEL_EU \<and>
                 Tradeflow row = flow_label F \<and> Year row = Y \<and>
                 qty_acc (REGION_LABEL_EU, R, Y, inverse_flow F) = Some q \<and>
                 Quantity_in_kg row = q \<and>
                 val1000_acc (REGION_LABEL_EU, R, Y, inverse_flow F) = Some v \<and>
                 Trade_Value_USD row = v * 1000)) \<and>
           inverse_flow ''I'' = ''E'' \<and> inverse_flow ''E'' = ''I''"
proof -
  have rows: "\<forall>row \<in> set (mirrored_list qty_acc val1000_acc).
                Reporter row \<noteq> REGION_LABEL_EU \<and> Partner row = REGION_LABEL_EU"
    using mirrored_list_rows by blast
  have each: "\<exists>row q v.
                 filter (\<lambda>row. Reporter row = R \<and> Year row = Y \<and> Tradeflow row = flow_label F)
                   (mirrored_list qty_acc val1000_acc) = [row] \<and>
                 Reporter row = R \<and> Partner row = REGION_LABEL_EU \<and>
                 Tradeflow row = flow_label F \<and> Year row = Y \<and>
                 qty_acc (REGION_LABEL_EU, R, Y, inverse_flow F) = Some q \<and>
                 Quantity_in_kg row = q \<and>
                 val1000_acc (REGION_LABEL_EU, R, Y, inverse_flow F) = Some v \<and>
                 Trade_Value_USD row = v * 1000"
    if "R \<in> fst ` set REPORTERS" "R \<noteq> REGION_LABEL_EU" "Y \<in> set YEARS" "F \<in> set FLOWS"
    for R Y F
  proof -
    from mirror_keys [OF that] assms
    obtain q v where "qty_acc (REGION_LABEL_EU, R, Y, inverse_flow F) = Some q"
      "val1000_acc (REGION_LABEL_EU, R, Y, inverse_flow F) = Some v"
      by (fastforce simp: all_keys_present_def)
    then show ?thesis
      by (simp add: filter_mirrored_list [OF that] mirrored_of_fields)
  qed
  have inv: "inverse_flow ''I'' = ''E'' \<and> inverse_flow ''E'' = ''I''"
    by (simp add: inverse_flow_def)
  from rows each inv mirrored_rows_eq [OF assms, of rows] show ?thesis by blast
qed

theorem mirrored_rows_correct_witness:
  "\<exists>mirrored row.
     mirrored_rows (qty_acc0((''European Union'', ''China'', 2024, ''I'') \<mapsto> 7))
       (val1000_acc0((''European Union'', ''China'', 2024, ''I'') \<mapsto> 3)) [] = Inr mirrored \<and>
     filter (\<lambda>row. Reporter row = ''China'' \<and> Year row = 2024 \<and> Tradeflow row = ''Export'')
       mirrored = [row] \<and>
     Partner row = ''European Union'' \<and> Quantity_in_kg row = 7 \<and> Trade_Value_USD row = 3000"
proof -
  let ?qa = "qty_acc0((''European Union'', ''China'', 2024, ''I'') \<mapsto> 7)"
  let ?va = "val1000_acc0((''European Union'', ''China'', 2024, ''I'') \<mapsto> 3)"
  have keys: "all_keys_present (?qa, ?va)"
    by (simp add: all_keys_present_def acc0_lookup)
  have cfg: "''China'' \<in> fst ` set REPORTERS \<and> ''China'' \<noteq> REGION_LABEL_EU \<and>
             2024 \<in> set YEARS \<and> ''E'' \<in> set FLOWS"
    by (simp add: REPORTERS_def REGION_LABEL_EU_def YEARS_def FLOWS_def)
  from mirrored_rows_correct [OF keys, of "[]"]
  obtain mirrored where
    run: "mirrored_rows ?qa ?va [] = Inr mirrored"
    and each: "\<forall>R Y F. R \<in> fst ` set REPORTERS \<and> R \<noteq> REGION_LABEL_EU \<and> Y \<in> set YEARS \<and>
                    F \<in> set FLOWS \<longrightarrow>
              (\<exists>row q v.
                 filter (\<lambda>row. Reporter row = R \<and> Year row = Y \<and> Tradeflow row = flow_label F)
                   mirrored = [row] \<and>
                 Reporter row = R \<and> Partner row = REGION_LABEL_EU \<and>
                 Tradeflow row = flow_label F \<and> Year row = Y \<and>
                 ?qa (REGION_LABEL_EU, R, Y, inverse_flow F) = Some q \<and>
                 Quantity_in_kg row = q \<and>
                 ?va (REGION_LABEL_EU, R, Y, inverse_flow F) = Some v \<and>
                 Trade_Value_USD row = v * 1000)"
    by auto
  from each cfg obtain row q v where
    "filter (\<lambda>row. Reporter row = ''China'' \<and> Year row = 2024 \<and> Tradeflow row = flow_label ''E'')
        mirrored = [row]"
    "Partner row = REGION_LABEL_EU"
    "?qa (REGION_LABEL_EU, ''China'', 2024, inverse_flow ''E'') = Some q" "Quantity_in_kg row = q"
    "?va (REGION_LABEL_EU, ''China'', 2024, inverse_flow ''E'') = Some v"
    "Trade_Value_USD row = v * 1000"
    by blast
  then have "filter (\<lambda>row. Reporter row = ''China'' \<and> Year row = 2024 \<and> Tradeflow row = ''Export'')
        mirrored = [row] \<and>
     Partner row = ''European Union'' \<and> Quantity_in_kg row = 7 \<and> Trade_Value_USD row = 3000"
    by (simp add: REGION_LABEL_EU_def inverse_flow_def flow_label_def)
  with run show ?thesis by blast
qed

lemma emitted_eur:
  "Trade_Value_EUR (emitted_row qa va k r p f y) =
     (case USD_TO_EUR y of Some rate \<Rightarrow> Some (Trade_Value_USD (emitted_row qa va k r p f y) * rate)
      | None \<Rightarrow> None)"
  "Year (emitted_row qa va k r p f y) = y"
  "Trade_Value_USD (emitted_row qa va k r p f y) = the (va k) * 1000"
  by (simp_all add: emitted_row_def split: option.splits)

text \<open>
  C7: the row that the body of part (1) or of part (2) appends has, as its value in
  USD, the accumulated value in thousands times 1000; its value in EUR is NaN when the
  rate table has no entry for the year of the row and the value in USD times the rate
  when it has one. A missing rate raises nothing: the body returns as soon as the two
  accumulator entries exist.
\<close>

theorem eur_value_by_rate:
  "(qty_acc (reporter, partner, year, flow) = Some q \<and>
    val1000_acc (reporter, partner, year, flow) = Some v \<longrightarrow>
      (\<exists>row. primary_row qty_acc val1000_acc reporter partner year flow rows = Inr (rows @ [row]) \<and>
         Year row = year \<and> Trade_Value_USD row = v * 1000 \<and>
         (USD_TO_EUR year = None \<longrightarrow> Trade_Value_EUR row = None) \<and>
         (\<forall>rate. USD_TO_EUR year = Some rate \<longrightarrow>
            Trade_Value_EUR row = Some (Trade_Value_USD row * rate)))) \<and>
   (qty_acc (REGION_LABEL_EU, reporter, year, inverse_flow flow) = Some q' \<and>
    val1000_acc (REGION_LABEL_EU, reporter, year, inverse_flow flow) = Some v' \<longrightarrow>
      (\<exists>row. mirrored_row qty_acc val1000_acc reporter year flow rows = Inr (rows @ [row]) \<and>
         Year row = year \<and> Trade_Value_USD row = v' * 1000 \<and>
         (USD_TO_EUR year = None \<longrightarrow> Trade_Value_EUR row = None) \<and>
         (\<forall>rate. USD_TO_EUR year = Some rate \<longrightarrow>
            Trade_Value_EUR row = Some (Trade_Value_USD row * rate))))"
  by (auto simp: primary_row_eq mirrored_row_eq primary_of_def mirrored_of_def emitted_eur)

lemma rate_2019: "USD_TO_EUR 2019 = None"
  by (simp add: USD_TO_EUR_def)

lemma rate_2020: "USD_TO_EUR 2020 = Some (877 / 1000)"
  by (simp add: USD_TO_EUR_def)

theorem eur_value_by_rate_witness:
  "USD_TO_EUR 2019 = None \<and>
   (\<exists>row. primary_row [(''China'', ''World'', 2019, ''I'') \<mapsto> 2]
             [(''China'', ''World'', 2019, ''I'') \<mapsto> 3] ''China'' ''World'' 2019 ''I'' [] =
             Inr [row] \<and>
           Trade_Value_USD row = 3000 \<and> Trade_Value_EUR row = None) \<and>
   (\<exists>row. mirrored_row [(''European Union'', ''China'', 2019, ''E'') \<mapsto> 2]
             [(''European Union'', ''China'', 2019, ''E'') \<mapsto> 3] ''China'' 2019 ''I'' [] =
             Inr [row] \<and>
           Trade_Value_USD row = 3000 \<and> Trade_Value_EUR row = None) \<and>
   (\<exists>row. primary_row [(''China'', ''World'', 2020, ''I'') \<mapsto> 2]
             [(''China'', ''World'', 2020, ''I'') \<mapsto> 3] ''China'' ''World'' 2020 ''I'' [] =
             Inr [row] \<and>
           Trade_Value_USD row = 3000 \<and> Trade_Value_EUR row = Some 2631)"
proof -
  have inv: "inverse_flow ''I'' = ''E''" by (simp add: inverse_flow_def)
  from eur_value_by_rate [of "[(''China'', ''World'', 2019, ''I'') \<mapsto> 2]" "''China''" "''World''"
      2019 "''I''" 2 "[(''China'', ''World'', 2019, ''I'') \<mapsto> 3]" 3 "[]"]
  have 1: "\<exists>row. primary_row [(''China'', ''World'', 2019, ''I'') \<mapsto> 2]
             [(''China'', ''World'', 2019, ''I'') \<mapsto> 3] ''China'' ''World'' 2019 ''I'' [] =
             Inr [row] \<and>
           Trade_Value_USD row = 3000 \<and> Trade_Value_EUR row = None"
    by (auto simp: rate_2019)
  from eur_value_by_rate [of "[(''European Union'', ''China'', 2019, ''E'') \<mapsto> 2]" "''China''" _
      2019 "''I''" _ "[(''European Union'', ''China'', 2019, ''E'') \<mapsto> 3]" _ "[]" 2 3]
  have 2: "\<exists>row. mirrored_row [(''European Union'', ''China'', 2019, ''E'') \<mapsto> 2]
             [(''European Union'', ''China'', 2019, ''E'') \<mapsto> 3] ''China'' 2019 ''I'' [] =
             Inr [row] \<and>
           Trade_Value_USD row = 3000 \<and> Trade_Value_EUR row = None"
    by (auto simp: rate_2019 inv REGION_LABEL_EU_def)
  from eur_value_by_rate [of "[(''China'', ''World'', 2020, ''I'') \<mapsto> 2]" "''China''" "''World''"
      2020 "''I''" 2 "[(''China'', ''World'', 2020, ''I'') \<mapsto> 3]" 3 "[]"]
  obtain row where row: "primary_row [(''China'', ''World'', 2020, ''I'') \<mapsto> 2]
             [(''China'', ''World'', 2020, ''I'') \<mapsto> 3] ''China'' ''World'' 2020 ''I'' [] =
             Inr [row]"
    "Trade_Value_USD row = 3000"
    "\<forall>rate. USD_TO_EUR 2020 = Some rate \<longrightarrow> Trade_Value_EUR row = Some (Trade_Value_USD row * rate)"
    by auto
  from row(3) rate_2020 have "Trade_Value_EUR row = Some (Trade_Value_USD row * (877 / 1000))"
    by blast
  with row(2) have "Trade_Value_EUR row = Some 2631" by simp
  with row(1,2) have 3: "\<exists>row. primary_row [(''China'', ''World'', 2020, ''I'') \<mapsto> 2]
             [(''China'', ''World'', 2020, ''I'') \<mapsto> 3] ''China'' ''World'' 2020 ''I'' [] =
             Inr [row] \<and>
           Trade_Value_USD row = 3000 \<and> Trade_Value_EUR row = Some 2631"
    by blast
  from 1 2 3 rate_2019 show ?thesis by blast
qed

section \<open>The final table\<close>

lemma export_before_import: "''Export'' < ''Import''"
  by simp

lemma key_order:
  "((a, b, c, d) \<le> (a', b', c', d')) =
     (a < a' \<or> a = a' \<and> (b < b' \<or> b = b' \<and> (c < c' \<or> c = c' \<and> d \<le> d')))"
  for a a' b b' d d' :: string and c c' :: int
  by (auto simp: less_eq_prod_def less_prod_def)

text \<open>
  C8: the table that is written out is sorted ascending by the key (Reporter, Partner,
  Year, Tradeflow), compared lexicographically with the flow labels as strings, so that
  Export comes before Import; it holds the rows of parts (1) and (2) after the removal
  of the self-pairs and the renaming of World.
\<close>

theorem output_sorted:
  "(build_table qty_acc val1000_acc = Inr out \<longrightarrow>
      sorted (map sort_key_of out) \<and>
      (\<forall>i. Suc i < length out \<longrightarrow> sort_key_of (out ! i) \<le> sort_key_of (out ! Suc i)) \<and>
      (\<exists>rows1 rows. primary_rows qty_acc val1000_acc [] = Inr rows1 \<and>
         mirrored_rows qty_acc val1000_acc rows1 = Inr rows \<and>
         mset out = mset (rename_world (drop_self_pairs rows)))) \<and>
   ''Export'' < ''Import'' \<and>
   (sort_key_of r \<le> sort_key_of r' \<longleftrightarrow>
      Reporter r < Reporter r' \<or> Reporter r = Reporter r' \<and>
        (Partner r < Partner r' \<or> Partner r = Partner r' \<and>
           (Year r < Year r' \<or> Year r = Year r' \<and> Tradeflow r \<le> Tradeflow r')))"
proof -
  have "sorted (map sort_key_of out) \<and>
      (\<forall>i. Suc i < length out \<longrightarrow> sort_key_of (out ! i) \<le> sort_key_of (out ! Suc i)) \<and>
      (\<exists>rows1 rows. primary_rows qty_acc val1000_acc [] = Inr rows1 \<and>
         mirrored_rows qty_acc val1000_acc rows1 = Inr rows \<and>
         mset out = mset (rename_world (drop_self_pairs rows)))"
    if run: "build_table qty_acc val1000_acc = Inr out"
  proof -
    from run obtain rows1 rows where
      1: "primary_rows qty_acc val1000_acc [] = Inr rows1"
      and 2: "mirrored_rows qty_acc val1000_acc rows1 = Inr rows"
      and out: "out = post_process rows"
      by (auto simp: build_table_def split: sum.splits)
    have sorted: "sorted (map sort_key_of out)"
      by (simp add: out post_process_def)
    have adj: "sort_key_of (out ! i) \<le> sort_key_of (out ! Suc i)" if "Suc i < length out" for i
      using sorted_nth_mono [OF sorted, of i "Suc i"] that by simp
    have "mset out = mset (rename_world (drop_self_pairs rows))"
      by (simp add: out post_process_def)
    with sorted adj 1 2 show ?thesis by blast
  qed
  moreover have "sort_key_of r \<le> sort_key_of r' \<longleftrightarrow>
      Reporter r < Reporter r' \<or> Reporter r = Reporter r' \<and>
        (Partner r < Partner r' \<or> Partner r = Partner r' \<and>
           (Year r < Year r' \<or> Year r = Year r' \<and> Tradeflow r \<le> Tradeflow r'))"
    unfolding sort_key_of_def by (rule key_order)
  ultimately show ?thesis
    using export_before_import by blast
qed

lemma acc0_present: "all_keys_present (qty_acc0, val1000_acc0)"
  by (simp add: all_keys_present_def acc0_lookup)

theorem output_sorted_witness:
  "\<exists>out. build_table qty_acc0 val1000_acc0 = Inr out \<and> sorted (map sort_key_of out)"
proof -
  obtain out where out: "build_table qty_acc0 val1000_acc0 = Inr out"
    by (simp add: build_table_eq [OF acc0_present])
  with output_sorted [of qty_acc0 val1000_acc0 out] show ?thesis by blast
qed

lemma main_loop_keys:
  assumes "main_loop fetch L = Inr s"
  shows "all_keys_present s"
  unfolding all_keys_present_def
proof
  fix k assume "k \<in> configured_keys"
  then obtain r0 c0 p0 y0 f0 where k: "k = (r0, p0, y0, f0)"
    and key: "(r0, c0) \<in> set REPORTERS" "p0 \<in> set PARTNERS" "y0 \<in> set YEARS" "f0 \<in> set FLOWS"
    by (auto simp: configured_keys_def)
  from main_loop_value [where sel = fst and pick = fst, OF _ assms key]
    main_loop_value [where sel = snd and pick = snd, OF _ assms key]
  show "fst s k \<noteq> None \<and> snd s k \<noteq> None" by (simp add: k)
qed

lemma rates_configured:
  assumes "year \<in> set YEARS"
  shows "\<exists>rate. USD_TO_EUR year = Some rate"
proof -
  from assms have "USD_TO_EUR year =
      Some (if year = 2020 then 877 / 1000 else if year = 2021 then 846 / 1000
            else if year = 2022 then 951 / 1000 else 924 / 1000)"
    by (auto simp: YEARS_def USD_TO_EUR_def)
  then show ?thesis by blast
qed

lemma table_rows_years:
  assumes "row \<in> set (primary_list qa va @ mirrored_list qa va)"
  shows "Year row \<in> set YEARS \<and>
         Trade_Value_EUR row =
           (case USD_TO_EUR (Year row) of Some rate \<Rightarrow> Some (Trade_Value_USD row * rate)
            | None \<Rightarrow> None)"
proof -
  from assms have "\<exists>k r p f y. row = emitted_row qa va k r p f y \<and> y \<in> set YEARS"
    unfolding primary_list_def mirrored_list_def primary_of_def mirrored_of_def
    by (fastforce split: if_splits)
  then obtain k r p f y where "row = emitted_row qa va k r p f y" "y \<in> set YEARS"
    by blast
  then show ?thesis
    by (simp add: emitted_row_def split: option.splits)
qed

lemma post_process_rows:
  assumes "row \<in> set (post_process rows)"
  shows "\<exists>r \<in> set rows. Year row = Year r \<and> Trade_Value_USD row = Trade_Value_USD r \<and>
           Trade_Value_EUR row = Trade_Value_EUR r"
  using assms by (auto simp: post_process_def rename_world_def drop_self_pairs_def)

lemma post_process_keeps:
  assumes "r \<in> set rows" "Reporter r \<noteq> Partner r" "Partner r \<noteq> ''World''"
  shows "r \<in> set (post_process rows)"
  using assms by (force simp: post_process_def rename_world_def drop_self_pairs_def)

text \<open>
  C9: every configured year has a rate, and every row of the table of a run has a
  configured year, hence a value in EUR that is not NaN: its value in USD times the rate
  of its year.
\<close>

theorem configured_years_have_rates:
  "(\<forall>year \<in> set YEARS. \<exists>rate. USD_TO_EUR year = Some rate) \<and>
   (run fetch L = Inr out \<longrightarrow>
      (\<forall>row \<in> set out.
         Year row \<in> set YEARS \<and>
         (\<exists>rate. USD_TO_EUR (Year row) = Some rate \<and>
            Trade_Value_EUR row = Some (Trade_Value_USD row * rate))))"
proof -
  have "Year row \<in> set YEARS \<and>
         (\<exists>rate. USD_TO_EUR (Year row) = Some rate \<and>
            Trade_Value_EUR row = Some (Trade_Value_USD row * rate))"
    if run: "run fetch L = Inr out" and row: "row \<in> set out" for row
  proof -
    from run obtain qa va where loop: "main_loop fetch L = Inr (qa, va)"
      and table: "build_table qa va = Inr out"
      by (auto simp: run_def split: sum.splits)
    from table have "out = post_process (primary_list qa va @ mirrored_list qa va)"
      by (simp add: build_table_eq [OF main_loop_keys [OF loop]])
    with row post_process_rows obtain r where
      r: "r \<in> set (primary_list qa va @ mirrored_list qa va)"
      and same: "Year row = Year r" "Trade_Value_USD row = Trade_Value_USD r"
        "Trade_Value_EUR row = Trade_Value_EUR r"
      by blast
    from table_rows_years [OF r] have year: "Year r \<in> set YEARS"
      and eur: "Trade_Value_EUR r =
           (case USD_TO_EUR (Year r) of Some rate \<Rightarrow> Some (Trade_Value_USD r * rate)
            | None \<Rightarrow> None)"
      by simp_all
    from rates_configured [OF year] obtain rate where "USD_TO_EUR (Year r) = Some rate" ..
    with year eur same show ?thesis by simp
  qed
  with rates_configured show ?thesis by blast
qed

lemma primary_list_member:
  assumes "rl \<in> fst ` set REPORTERS" "p \<in> set PARTNERS" "y \<in> set YEARS" "f \<in> set FLOWS"
  shows "primary_of qa va rl p y f \<in> set (primary_list qa va)"
  using assms by (auto simp: primary_list_def)

theorem configured_years_have_rates_witness:
  "\<exists>out row. run example_fetch plain_lib = Inr out \<and> row \<in> set out \<and>
     Reporter row = ''United States'' \<and> Partner row = ''China'' \<and> Year row = 2024 \<and>
     Trade_Value_EUR row = Some (Trade_Value_USD row * (924 / 1000))"
proof -
  have good: "all_sheets_good example_fetch"
    by (simp add: all_sheets_good_def example_fetch_def example_missing)
  from main_loop_total [OF good, of plain_lib] obtain qa va where
    loop: "main_loop example_fetch plain_lib = Inr (qa, va)" and keys: "all_keys_present (qa, va)"
    by auto
  define out where "out = post_process (primary_list qa va @ mirrored_list qa va)"
  have run: "run example_fetch plain_lib = Inr out"
    by (simp add: run_def loop build_table_eq [OF keys] out_def)
  define row where "row = primary_of qa va ''United States'' ''China'' 2024 ''E''"
  have fields: "Reporter row = ''United States''" "Partner row = ''China''" "Year row = 2024"
    by (simp_all add: row_def primary_of_def emitted_row_def)
  have "row \<in> set (primary_list qa va)"
    unfolding row_def
    by (rule primary_list_member)
       (simp_all add: REPORTERS_def PARTNERS_def BASE_PARTNERS_def YEARS_def FLOWS_def)
  then have mem: "row \<in> set out"
    unfolding out_def by (intro post_process_keeps) (simp_all add: fields)
  from configured_years_have_rates [of example_fetch plain_lib out] run mem
  obtain rate where "USD_TO_EUR (Year row) = Some rate"
    "Trade_Value_EUR row = Some (Trade_Value_USD row * rate)"
    by blast
  then have "Trade_Value_EUR row = Some (Trade_Value_USD row * (924 / 1000))"
    by (simp add: fields USD_TO_EUR_def)
  with run mem fields show ?thesis by blast
qed

section \<open>Units with surrounding whitespace\<close>

lemma lower_spaced: "lower ''kg '' = ''kg ''" "lower ''kg'' = ''kg''"
  by code_simp+

lemma strip_spaced: "strip ''kg '' = ''kg''"
  by (simp add: strip_def py_isspace_def)

lemma spaced_missing: "missing_columns spaced_sheet = []"
  by (simp add: missing_columns_def required_columns_def spaced_sheet_def)

lemma spaced_kg_sum:
  assumes "c = ''Quantity'' \<or> c = ''Trade Value 1000USD''"
  shows "kg_sum L spaced_sheet P c =
     (if P (hd (records spaced_sheet)) then coerce L (hd (records spaced_sheet) c) else 0)"
  using assms
  by (auto simp: kg_sum_def col_sum_def int_column_def selected_def spaced_sheet_def
      is_kg_row_def unit_label_def py_str_def strip_spaced lower_spaced to_numeric_cell_def
      is_int_def)

lemma strip_nbsp:
  "strip (''kg'' @ [CHR 0xA0]) = ''kg''" "strip (''China'' @ [CHR 0xA0]) = ''China''"
  "strip [CHR ''k'', CHR ''g'', CHR 0xA0] = ''kg''"
  "strip [CHR ''C'', CHR ''h'', CHR ''i'', CHR ''n'', CHR ''a'', CHR 0xA0] = ''China''"
  by code_simp+

lemma nbsp_missing: "missing_columns nbsp_sheet = []"
  by (simp add: missing_columns_def required_columns_def nbsp_sheet_def)

lemma nbsp_kg_sum:
  assumes "c = ''Quantity'' \<or> c = ''Trade Value 1000USD''"
  shows "kg_sum L nbsp_sheet P c =
     (if P (hd (records nbsp_sheet)) then coerce L (hd (records nbsp_sheet) c) else 0)"
  using assms
  by (auto simp: kg_sum_def col_sum_def int_column_def selected_def nbsp_sheet_def
      is_kg_row_def unit_label_def py_str_def strip_nbsp lower_spaced to_numeric_cell_def
      is_int_def)

text \<open>
  A no-break space is trimmed like a space: a row whose unit is \<^verbatim>\<open>kg\<close> and whose partner is
  \<^verbatim>\<open>China\<close>, each followed by a no-break space, is a kilogram row of the partner China.
\<close>

lemma no_break_space_trimmed:
  "result (get_rest_of_world_sum plain_lib [nbsp_sheet] 0 {}) = Inr (7, 3)"
  "result (get_rest_of_world_sum plain_lib [nbsp_sheet] 0 {''China''}) = Inr (0, 0)"
  "result (get_qty_and_value_sums_for_partners plain_lib [nbsp_sheet] 0 [''China'']) =
     Inr [(''China'', 7, 3)]"
proof -
  have len: "0 < length [nbsp_sheet]" by simp
  have label: "partner_label plain_lib (hd (records nbsp_sheet)) = ''China''"
    by (simp add: nbsp_sheet_def partner_label_def py_str_def strip_nbsp)
  have cells: "coerce plain_lib (hd (records nbsp_sheet) ''Quantity'') = 7"
    "coerce plain_lib (hd (records nbsp_sheet) ''Trade Value 1000USD'') = 3"
    by (simp_all add: nbsp_sheet_def coerce_def to_numeric_cell_def cell_value_def)
  show "result (get_rest_of_world_sum plain_lib [nbsp_sheet] 0 {}) = Inr (7, 3)"
    by (simp add: rest_eq [OF len] nbsp_missing nbsp_kg_sum cells)
  show "result (get_rest_of_world_sum plain_lib [nbsp_sheet] 0 {''China''}) = Inr (0, 0)"
    by (simp add: rest_eq [OF len] nbsp_missing nbsp_kg_sum label)
  show "result (get_qty_and_value_sums_for_partners plain_lib [nbsp_sheet] 0 [''China'']) =
     Inr [(''China'', 7, 3)]"
    by (simp add: sums_eq [OF len] nbsp_missing nbsp_kg_sum label cells)
qed

text \<open>
  C4 as it is worded fails: the unit \<^verbatim>\<open>kg\<close> followed by a space is not equal to
  \<^verbatim>\<open>kg\<close> whatever the case, yet the row is summed by both operations, because
  the unit is trimmed before it is compared.
\<close>

theorem unit_with_spaces_counts:
  "get_col spaced_sheet ''Quantity Unit'' = [Str ''kg ''] \<and>
   lower ''kg '' \<noteq> lower ''kg'' \<and>
   result (get_rest_of_world_sum plain_lib [spaced_sheet] 0 {''China''}) = Inr (7, 3) \<and>
   result (get_qty_and_value_sums_for_partners plain_lib [spaced_sheet] 0 [''Japan'']) =
     Inr [(''Japan'', 7, 3)]"
proof -
  have len: "0 < length [spaced_sheet]" by simp
  have rest: "kg_sum plain_lib spaced_sheet (\<lambda>r. partner_label plain_lib r \<noteq> ''China'') ''Quantity'' = 7"
    "kg_sum plain_lib spaced_sheet (\<lambda>r. partner_label plain_lib r \<noteq> ''China'')
       ''Trade Value 1000USD'' = 3"
    by (simp_all add: spaced_kg_sum)
       (simp_all add: spaced_sheet_def partner_label_def py_str_def strip_plain coerce_def
          to_numeric_cell_def cell_value_def)
  have japan: "kg_sum plain_lib spaced_sheet (\<lambda>r. partner_label plain_lib r = ''Japan'') ''Quantity'' = 7"
    "kg_sum plain_lib spaced_sheet (\<lambda>r. partner_label plain_lib r = ''Japan'')
       ''Trade Value 1000USD'' = 3"
    by (simp_all add: spaced_kg_sum)
       (simp_all add: spaced_sheet_def partner_label_def py_str_def strip_plain coerce_def
          to_numeric_cell_def cell_value_def)
  have 1: "get_col spaced_sheet ''Quantity Unit'' = [Str ''kg '']"
    by (simp add: get_col_def spaced_sheet_def)
  have 2: "lower ''kg '' \<noteq> lower ''kg''"
    by (simp add: lower_spaced)
  have 3: "result (get_rest_of_world_sum plain_lib [spaced_sheet] 0 {''China''}) = Inr (7, 3)"
    by (simp add: rest_eq [OF len] spaced_missing rest)
  have 4: "result (get_qty_and_value_sums_for_partners plain_lib [spaced_sheet] 0 [''Japan'']) =
     Inr [(''Japan'', 7, 3)]"
    by (simp add: sums_eq [OF len] spaced_missing japan)
  from 1 2 3 4 show ?thesis by blast
qed

end
